theory Spec2Isabelle
  imports Complex_Main "HOL-Library.AList"
begin

section \<open>JavaScript values used by the detector\<close>

text \<open>
  The detector is TypeScript; what runs is JavaScript. Three features of the language
  are visible in the functions below and are written out here.

  \<^item> A \<open>number\<close> is either a finite number or \<open>NaN\<close>. Finite numbers are taken as reals:
    every score is a sum of the integer weights 1, 2, 5, 10 over an array, far below
    \<open>2^53\<close>, where double arithmetic is exact. Every comparison with \<open>NaN\<close> is false.
  \<open>Infinity\<close> never arises and is left out.

  \<^item> An object literal \<open>{}\<close> used as a dictionary has its own properties, kept in
    insertion order, and inherits the members of \<open>Object.prototype\<close>. Reading
    \<open>obj[k]\<close> for a key that is not an own property but names an inherited member
    gives that member (a function, or the prototype object for \<open>__proto__\<close>), not
    \<open>undefined\<close>, so \<open>obj[k] ?? d\<close> does not fall back to \<open>d\<close> there. Writing
    \<open>obj[k] = v\<close> creates or replaces an own property, except for \<open>__proto__\<close>,
    whose setter ignores a primitive \<open>v\<close>.

  \<^item> \<open>a + b\<close> adds two numbers; when one side is a function, an object or a string
    the result is the concatenated text, which is not the text of a number, so
    \<open>Math.min\<close> of it is \<open>NaN\<close>.

  Strings are \<open>string\<close>; one \<open>char\<close> stands for one code unit.
\<close>

datatype number = Num real | NaN

fun num_plus :: "number \<Rightarrow> number \<Rightarrow> number" where
  "num_plus (Num a) (Num b) = Num (a + b)"
| "num_plus _ _ = NaN"

fun num_times :: "number \<Rightarrow> number \<Rightarrow> number" where
  "num_times (Num a) (Num b) = Num (a * b)"
| "num_times _ _ = NaN"

fun num_minus :: "number \<Rightarrow> number \<Rightarrow> number" where
  "num_minus (Num a) (Num b) = Num (a - b)"
| "num_minus _ _ = NaN"

fun num_ge :: "number \<Rightarrow> number \<Rightarrow> bool" where
  "num_ge (Num a) (Num b) = (a \<ge> b)"
| "num_ge _ _ = False"

text \<open>A value held in, or read from, a dictionary of numbers: a number, or something
  that is not one (an inherited function or object, or concatenated text).\<close>

datatype jsval = NumVal real | NonNumeric

fun js_plus :: "jsval \<Rightarrow> jsval \<Rightarrow> jsval" where
  "js_plus (NumVal a) (NumVal b) = NumVal (a + b)"
| "js_plus _ _ = NonNumeric"

fun Math_min :: "jsval \<Rightarrow> real \<Rightarrow> number" where
  "Math_min (NumVal v) c = Num (min v c)"
| "Math_min NonNumeric c = NaN"

type_synonym 'v js_object = "(string \<times> 'v) list"

definition OBJECT_PROTOTYPE_NAMES :: "string list" where
  "OBJECT_PROTOTYPE_NAMES =
     [''constructor'', ''__defineGetter__'', ''__defineSetter__'', ''hasOwnProperty'',
      ''__lookupGetter__'', ''__lookupSetter__'', ''isPrototypeOf'',
      ''propertyIsEnumerable'', ''toString'', ''valueOf'', ''__proto__'',
      ''toLocaleString'']"

definition get_member :: "jsval js_object \<Rightarrow> string \<Rightarrow> jsval option" where
  "get_member obj k =
     (case map_of obj k of
        Some v \<Rightarrow> Some v
      | None \<Rightarrow> if k \<in> set OBJECT_PROTOTYPE_NAMES then Some NonNumeric else None)"

definition set_member :: "'v js_object \<Rightarrow> string \<Rightarrow> 'v \<Rightarrow> 'v js_object" where
  "set_member obj k v = (if k = ''__proto__'' then obj else AList.update k v obj)"

definition nullish_or :: "'a option \<Rightarrow> 'a \<Rightarrow> 'a" where
  "nullish_or x d = (case x of None \<Rightarrow> d | Some v \<Rightarrow> v)"


section \<open>Text primitives\<close>

text \<open>The built-in string operations the detector calls, on the characters a
  \<open>char\<close> can hold: \<open>toLowerCase\<close> folds the letters A to Z, \<open>trim\<close> strips the
  white space characters of that range, \<open>s.slice(0, n)\<close> is \<open>take n s\<close>, and
  \<open>String(n)\<close> is the decimal numeral of a count.\<close>

abbreviation (input) BSL :: string where
  "BSL \<equiv> [CHR 0x5C]"

text \<open>The dash of the description texts is one code unit in the source; it is written
  as its three UTF-8 bytes. It occurs in descriptions only.\<close>

abbreviation (input) EM_DASH :: string where
  "EM_DASH \<equiv> [CHR 0xE2, CHR 0x80, CHR 0x94]"

definition lower_char :: "char \<Rightarrow> char" where
  "lower_char c =
     (let n = (of_char c :: nat) in if 65 \<le> n \<and> n \<le> 90 then char_of (n + 32) else c)"

definition toLowerCase :: "string \<Rightarrow> string" where
  "toLowerCase s = map lower_char s"

definition is_space :: "char \<Rightarrow> bool" where
  "is_space c = (c \<in> set [CHR 0x09, CHR 0x0A, CHR 0x0B, CHR 0x0C, CHR 0x0D, CHR 0x20, CHR 0xA0])"

definition trim :: "string \<Rightarrow> string" where
  "trim s = rev (dropWhile is_space (rev (dropWhile is_space s)))"

definition startsWith :: "string \<Rightarrow> string \<Rightarrow> bool" where
  "startsWith s p = (take (length p) s = p)"

definition digit_char :: "nat \<Rightarrow> char" where
  "digit_char d = char_of (48 + d)"

fun String_of :: "nat \<Rightarrow> string" where
  "String_of n = (if n < 10 then [digit_char n] else String_of (n div 10) @ [digit_char (n mod 10)])"

declare String_of.simps [simp del]


section \<open>What the runtime provides\<close>

text \<open>
  The regular-expression engine, the URL parser, the network and the text decoder are
  the platform's, not the detector's; they are parameters of the model.

  A regular expression is its source text with its flags. \<open>re_first E r s\<close> is what
  \<open>r.exec(s)\<close> finds from the start of \<open>s\<close>: the matched text \<open>m[0]\<close> and the first
  group \<open>m[1]\<close> (read only for patterns whose first group always takes part), or
  nothing; \<open>r.test(s)\<close> asks whether it finds something. None of the expressions
  tested this way carries the flag \<open>g\<close>, so no \<open>lastIndex\<close> is kept between calls.
  \<open>re_all E r s\<close> lists the successive matches of a global scan, as
  \<open>s.match(r)\<close> and a \<open>while (r.exec(s))\<close> loop see them; the tag patterns scanned by
  such a loop cannot match the empty text, so the loop ends.

  \<open>url_hostname E u\<close> is \<open>new URL(u).hostname\<close>, \<open>url_href E rel base\<close> is
  \<open>new URL(rel, base).href\<close>; both are \<open>None\<close> when the constructor throws.

  A fetch either throws, with the message the \<open>catch\<close> block reads, or returns.
  The time limits of the two fetches decide only whether they throw.
\<close>

type_synonym regex = "string \<times> string"

datatype 'a attempt = Threw string | Returned 'a

record response =
  response_url :: string
  response_headers :: "(string \<times> string) list"
  response_text :: "string attempt"

record runtime =
  re_first :: "regex \<Rightarrow> string \<Rightarrow> (string \<times> string) option"
  re_all :: "regex \<Rightarrow> string \<Rightarrow> (string \<times> string) list"
  url_hostname :: "string \<Rightarrow> string option"
  url_href :: "string \<Rightarrow> string \<Rightarrow> string option"
  fetch_page :: "string \<Rightarrow> nat \<Rightarrow> response attempt"
  fetch_script :: "string \<Rightarrow> string attempt"
  text_decode :: "string \<Rightarrow> string"

definition RegExp_test :: "runtime \<Rightarrow> regex \<Rightarrow> string \<Rightarrow> bool" where
  "RegExp_test E r s = (re_first E r s \<noteq> None)"


section \<open>Types\<close>

text \<open>\<open>Signal.confidence\<close> is declared as the union \<open>"high" | "medium" | "low"\<close>; it is
  kept as the string it is at run time, because \<open>scoreSignals\<close> uses it as a
  dictionary key and has a fallback for other values.\<close>

record Signal =
  category :: string
  description :: string
  confidence :: string
  matchedValue :: string

datatype Bucket = PlatformAssisted | AiAssisted | NoAiSignals | Unknown

datatype ConfidenceLabel = ConfHigh | ConfMedium | ConfLow | ConfNone

record DetectionResult =
  url :: string
  finalUrl :: string
  bucket :: Bucket
  bucketConfidence :: ConfidenceLabel
  platform :: "string option"
  platformScore :: number
  platformSignals :: "Signal list"
  allPlatformScores :: "number js_object"
  aiScore :: number
  aiSignals :: "Signal list"
  error :: "string option"

type_synonym PatternEntry = "string \<times> string \<times> string"

record PlatformFingerprint =
  fp_hostname :: "PatternEntry list option"
  fp_http_header :: "PatternEntry list option"
  fp_meta_tag :: "PatternEntry list option"
  fp_html_comment :: "PatternEntry list option"
  fp_data_attribute :: "PatternEntry list option"
  fp_css_class :: "PatternEntry list option"
  fp_css_variable :: "PatternEntry list option"
  fp_js_global :: "PatternEntry list option"
  fp_dom_id :: "PatternEntry list option"
  fp_script_content :: "PatternEntry list option"
  fp_script_src :: "PatternEntry list option"
  fp_link_href :: "PatternEntry list option"
  fp_img_src :: "PatternEntry list option"
  fp_font :: "PatternEntry list option"

text \<open>A fingerprint with every optional group absent.\<close>

definition no_patterns :: PlatformFingerprint where
  "no_patterns =
     \<lparr>fp_hostname = None, fp_http_header = None, fp_meta_tag = None, fp_html_comment = None,
      fp_data_attribute = None, fp_css_class = None, fp_css_variable = None,
      fp_js_global = None, fp_dom_id = None, fp_script_content = None, fp_script_src = None,
      fp_link_href = None, fp_img_src = None, fp_font = None\<rparr>"

text \<open>\<open>fp[cat]\<close> for the category names of \<open>htmlCategories\<close>.\<close>

definition fp_field :: "string \<Rightarrow> PlatformFingerprint \<Rightarrow> PatternEntry list option" where
  "fp_field cat fp =
     (if cat = ''meta_tag'' then fp_meta_tag fp
      else if cat = ''html_comment'' then fp_html_comment fp
      else if cat = ''data_attribute'' then fp_data_attribute fp
      else if cat = ''css_class'' then fp_css_class fp
      else if cat = ''css_variable'' then fp_css_variable fp
      else if cat = ''js_global'' then fp_js_global fp
      else if cat = ''dom_id'' then fp_dom_id fp
      else if cat = ''script_content'' then fp_script_content fp
      else if cat = ''font'' then fp_font fp
      else None)"


section \<open>Platform fingerprints\<close>

definition Framer_fingerprint :: PlatformFingerprint where
  \<open>Framer_fingerprint = no_patterns
     \<lparr>fp_hostname := Some
       [((BSL @ ''.framer'' @ BSL @ ''.website$''), ''high'',
         ''Framer subdomain (.framer.website)''),
        ((BSL @ ''.framer'' @ BSL @ ''.app$''), ''high'',
         ''Framer subdomain (.framer.app)''),
        ((BSL @ ''.framer'' @ BSL @ ''.ai$''), ''high'',
         ''Framer subdomain (.framer.ai)'')],
      fp_http_header := Some
       [(''^Framer/'', ''high'',
         ''Framer Server header''),
        (''^framer$'', ''high'',
         ''Framer Server header (lowercase)'')],
      fp_meta_tag := Some
       [(''<meta[^>]+name=["\']generator["\'][^>]+content=["\']Framer'', ''high'',
         ''Framer generator meta tag''),
        (''<meta[^>]+content=["\']Framer[^"\']*["\'][^>]+name=["\']generator["\']'', ''high'',
         ''Framer generator meta tag (reversed)'')],
      fp_html_comment := Some
       [(''Built with Framer'', ''high'',
         ''Framer build comment''),
        ((''framer'' @ BSL @ ''.com''), ''medium'',
         ''Framer URL in HTML comment'')],
      fp_data_attribute := Some
       [(''data-framer-component-type'', ''high'',
         ''Framer component attribute''),
        (''data-framer-stack-'', ''high'',
         ''Framer stack layout attribute''),
        (''data-framer-appear-id'', ''high'',
         ''Framer appear animation attribute''),
        (''data-framer-name'', ''medium'',
         ''Framer name attribute'')],
      fp_css_class := Some
       [((BSL @ ''bframer-[a-zA-Z0-9]{4,10}'' @ BSL @ ''b''), ''medium'',
         ''Framer generated CSS class'')],
      fp_css_variable := Some
       [(''--framer-font-family'', ''high'',
         ''Framer CSS font variable''),
        (''--framer-text-color'', ''high'',
         ''Framer CSS text color variable''),
        (''--framer-link-'', ''high'',
         ''Framer CSS link variable'')],
      fp_dom_id := Some
       [(''id=["\']__framer-badge-container["\']'', ''high'',
         ''Framer badge (free tier)'')],
      fp_script_src := Some
       [((''framerusercontent'' @ BSL @ ''.com''), ''high'',
         ''Framer CDN (framerusercontent.com)''),
        ((''framerstatic'' @ BSL @ ''.com''), ''high'',
         ''Framer static CDN''),
        ((''events'' @ BSL @ ''.framer'' @ BSL @ ''.com''), ''high'',
         ''Framer analytics endpoint'')],
      fp_link_href := Some
       [((''framerusercontent'' @ BSL @ ''.com''), ''high'',
         ''Framer CDN in stylesheet'')]\<rparr>\<close>

definition Webflow_fingerprint :: PlatformFingerprint where
  \<open>Webflow_fingerprint = no_patterns
     \<lparr>fp_hostname := Some
       [((BSL @ ''.webflow'' @ BSL @ ''.io$''), ''high'',
         ''Webflow subdomain (.webflow.io)'')],
      fp_html_comment := Some
       [(''This site was created in Webflow'', ''high'',
         ''Webflow build comment''),
        ((''webflow'' @ BSL @ ''.com''), ''medium'',
         ''Webflow URL in HTML comment'')],
      fp_meta_tag := Some
       [(''<meta[^>]+content=["\']Webflow["\'][^>]+name=["\']generator["\']'', ''high'',
         ''Webflow generator meta tag''),
        (''<meta[^>]+name=["\']generator["\'][^>]+content=["\']Webflow["\']'', ''high'',
         ''Webflow generator meta tag (reversed)'')],
      fp_data_attribute := Some
       [(''data-wf-domain'', ''high'',
         ''Webflow domain attribute''),
        (''data-wf-page'', ''high'',
         ''Webflow page ID attribute''),
        (''data-wf-site'', ''high'',
         ''Webflow site ID attribute''),
        (''data-wf-experiences'', ''high'',
         ''Webflow experiences attribute''),
        (''data-wf--button--variant'', ''high'',
         ''Webflow button component attribute''),
        (''data-wf--nav--variant'', ''high'',
         ''Webflow nav component attribute'')],
      fp_css_class := Some
       [((BSL @ ''bw-mod-js'' @ BSL @ ''b''), ''high'',
         ''Webflow w-mod-js class''),
        ((BSL @ ''bw-richtext'' @ BSL @ ''b''), ''high'',
         ''Webflow rich text class''),
        ((BSL @ ''bw-embed'' @ BSL @ ''b''), ''high'',
         ''Webflow embed class''),
        ((BSL @ ''bw-dyn-list'' @ BSL @ ''b''), ''high'',
         ''Webflow dynamic list class''),
        ((BSL @ ''bw-dyn-item'' @ BSL @ ''b''), ''high'',
         ''Webflow dynamic item class''),
        ((BSL @ ''bw-nav'' @ BSL @ ''b''), ''high'',
         ''Webflow nav class''),
        ((BSL @ ''bw-container'' @ BSL @ ''b''), ''medium'',
         ''Webflow container class'')],
      fp_css_variable := Some
       [(''--_color---primary--webflow-blue'', ''high'',
         ''Webflow brand CSS variable''),
        (''--wst-button-'', ''high'',
         ''Webflow style token button variable'')],
      fp_js_global := Some
       [((''window'' @ BSL @ ''.wf'' @ BSL @ ''b''), ''high'',
         ''Webflow JS global (window.wf)''),
        ((''window'' @ BSL @ ''.webflowHost''), ''high'',
         ''Webflow JS host global''),
        ((''Webflow'' @ BSL @ ''.push''), ''high'',
         ''Webflow.push() JS call'')],
      fp_script_src := Some
       [((''cdn'' @ BSL @ ''.prod'' @ BSL @ ''.website-files'' @ BSL @ ''.com''), ''high'',
         ''Webflow production CDN''),
        ((''d3e54v103j8qbb'' @ BSL @ ''.cloudfront'' @ BSL @ ''.net''), ''high'',
         ''Webflow CloudFront CDN'')],
      fp_link_href := Some
       [((''cdn'' @ BSL @ ''.prod'' @ BSL @ ''.website-files'' @ BSL @ ''.com''), ''high'',
         ''Webflow CDN stylesheet''),
        ((BSL @ ''.webflow'' @ BSL @ ''.[a-f0-9]+-[a-f0-9]+'' @ BSL @ ''.min'' @ BSL @ ''.css''), ''high'',
         ''Webflow generated CSS filename'')]\<rparr>\<close>

definition Bolt_fingerprint :: PlatformFingerprint where
  \<open>Bolt_fingerprint = no_patterns
     \<lparr>fp_hostname := Some
       [((BSL @ ''.bolt'' @ BSL @ ''.new$''), ''high'',
         ''Bolt preview subdomain (.bolt.new)''),
        ((BSL @ ''.stackblitz'' @ BSL @ ''.io$''), ''high'',
         ''StackBlitz preview (Bolt host)'')],
      fp_meta_tag := Some
       [(''<meta[^>]+name=["\']bolt-version["\']'', ''high'',
         ''Bolt version meta tag'')],
      fp_html_comment := Some
       [((''bolt'' @ BSL @ ''.new''), ''high'',
         ''bolt.new URL in HTML comment''),
        (''<!--remix-island-start-->'', ''medium'',
         ''Remix island comment (Bolt uses Remix)'')],
      fp_css_variable := Some
       [(''--bolt-elements-'', ''high'',
         ''Bolt CSS element variable''),
        (''--bolt-ds-'', ''high'',
         ''Bolt design system CSS variable'')],
      fp_js_global := Some
       [((''window'' @ BSL @ ''.__allowDOMMutations''), ''high'',
         ''Bolt JS global (__allowDOMMutations)''),
        ((''window'' @ BSL @ ''.__loadingPrompt''), ''high'',
         ''Bolt JS global (__loadingPrompt)''),
        (''"bolt_theme"'', ''medium'',
         ''Bolt theme localStorage key'')]\<rparr>\<close>

definition v0_Vercel_fingerprint :: PlatformFingerprint where
  \<open>v0_Vercel_fingerprint = no_patterns
     \<lparr>fp_hostname := Some
       [((BSL @ ''.v0'' @ BSL @ ''.dev$''), ''high'',
         ''v0 subdomain (.v0.dev)''),
        ((BSL @ ''.v0'' @ BSL @ ''.app$''), ''high'',
         ''v0 subdomain (.v0.app)''),
        ((BSL @ ''.vusercontent'' @ BSL @ ''.net$''), ''high'',
         ''v0 vusercontent preview subdomain'')],
      fp_data_attribute := Some
       [(''data-dpl-id=["\']dpl_[a-zA-Z0-9]+["\']'', ''high'',
         ''v0/Vercel deployment ID attribute'')],
      fp_script_src := Some
       [(''/chat-static/_next/static/'', ''high'',
         ''v0 Next.js static bundle path''),
        ((''blobs'' @ BSL @ ''.vusercontent'' @ BSL @ ''.net''), ''high'',
         ''v0 blob storage CDN''),
        ((''generated'' @ BSL @ ''.vusercontent'' @ BSL @ ''.net''), ''high'',
         ''v0 generated asset CDN'')],
      fp_link_href := Some
       [(''/chat-static/_next/static/'', ''high'',
         ''v0 Next.js static CSS path''),
        ((''vusercontent'' @ BSL @ ''.net''), ''high'',
         ''v0 CDN in stylesheet'')],
      fp_css_class := Some
       [((BSL @ ''bgeist'' @ BSL @ ''b''), ''medium'',
         ''Geist font class (Vercel/v0 proprietary)'')]\<rparr>\<close>

definition Wix_fingerprint :: PlatformFingerprint where
  \<open>Wix_fingerprint = no_patterns
     \<lparr>fp_hostname := Some
       [((BSL @ ''.wix'' @ BSL @ ''.com$''), ''high'',
         ''Wix subdomain (.wix.com)''),
        ((BSL @ ''.wixsite'' @ BSL @ ''.com$''), ''high'',
         ''Wix subdomain (.wixsite.com)'')],
      fp_meta_tag := Some
       [((''<meta[^>]+name=["\']generator["\'][^>]+content=["\']Wix'' @ BSL @ ''.com''), ''high'',
         ''Wix generator meta tag''),
        ((''<meta[^>]+content=["\']Wix'' @ BSL @ ''.com[^"\']*["\'][^>]+name=["\']generator["\']''), ''high'',
         ''Wix generator meta tag (reversed)'')],
      fp_dom_id := Some
       [(''id=["\']SITE_CONTAINER["\']'', ''high'',
         ''Wix SITE_CONTAINER element''),
        (''id=["\']SITE_HEADER["\']'', ''high'',
         ''Wix SITE_HEADER element''),
        (''id=["\']SITE_FOOTER["\']'', ''high'',
         ''Wix SITE_FOOTER element''),
        (''id=["\']WIX_ADS["\']'', ''high'',
         ''Wix ads element (free tier)''),
        (''id=["\']masterPage["\']'', ''high'',
         ''Wix masterPage element'')],
      fp_script_content := Some
       [(''wix-thunderbolt'', ''high'',
         ''Wix Thunderbolt renderer reference''),
        ((''"applicationId"'' @ BSL @ ''s*:'' @ BSL @ ''s*"wix-''), ''high'',
         ''Wix application ID in JSON'')],
      fp_css_variable := Some
       [((''--color_'' @ BSL @ ''d+'' @ BSL @ ''s*:''), ''medium'',
         ''Wix numbered color CSS variable''),
        ((''--font_'' @ BSL @ ''d+'' @ BSL @ ''s*:''), ''medium'',
         ''Wix numbered font CSS variable''),
        (''--wix-ads-height'', ''high'',
         ''Wix ads height CSS variable'')],
      fp_script_src := Some
       [((''static'' @ BSL @ ''.parastorage'' @ BSL @ ''.com''), ''high'',
         ''Wix parastorage CDN''),
        ((''static'' @ BSL @ ''.wixstatic'' @ BSL @ ''.com''), ''high'',
         ''Wix static CDN''),
        ((''siteassets'' @ BSL @ ''.parastorage'' @ BSL @ ''.com''), ''high'',
         ''Wix site assets CDN'')],
      fp_link_href := Some
       [((''static'' @ BSL @ ''.parastorage'' @ BSL @ ''.com''), ''high'',
         ''Wix parastorage CDN stylesheet''),
        ((''static'' @ BSL @ ''.wixstatic'' @ BSL @ ''.com''), ''high'',
         ''Wix static CDN stylesheet'')]\<rparr>\<close>

definition Lovable_fingerprint :: PlatformFingerprint where
  \<open>Lovable_fingerprint = no_patterns
     \<lparr>fp_hostname := Some
       [((BSL @ ''.lovable'' @ BSL @ ''.app$''), ''high'',
         ''Lovable preview subdomain (.lovable.app)''),
        ((BSL @ ''.gptengineer'' @ BSL @ ''.app$''), ''high'',
         ''Lovable legacy subdomain (.gptengineer.app)'')],
      fp_meta_tag := Some
       [(''<meta[^>]+name=["\']generator["\'][^>]+content=["\']Lovable'', ''high'',
         ''Lovable generator meta tag'')],
      fp_dom_id := Some
       [(''id=["\']lovable-badge["\']'', ''high'',
         ''Lovable badge (free tier)'')],
      fp_html_comment := Some
       [(''[Ll]ovable'', ''medium'',
         ''Lovable mention in HTML comment'')],
      fp_js_global := Some
       [((''window'' @ BSL @ ''.__lovable''), ''high'',
         ''Lovable JS global'')],
      fp_script_src := Some
       [((''/lovable-uploads/[0-9a-f]{8}-[0-9a-f]{4}-[0-9a-f]{4}-[0-9a-f]{4}-[0-9a-f]{12}'' @ BSL @ ''.[a-z]+''), ''high'',
         ''Lovable UUID uploads asset'')],
      fp_img_src := Some
       [((''/lovable-uploads/[0-9a-f]{8}-[0-9a-f]{4}-[0-9a-f]{4}-[0-9a-f]{4}-[0-9a-f]{12}'' @ BSL @ ''.[a-z]+''), ''high'',
         ''Lovable UUID uploads image'')]\<rparr>\<close>

definition Squarespace_fingerprint :: PlatformFingerprint where
  \<open>Squarespace_fingerprint = no_patterns
     \<lparr>fp_hostname := Some
       [((BSL @ ''.squarespace'' @ BSL @ ''.com$''), ''high'',
         ''Squarespace subdomain (.squarespace.com)'')],
      fp_http_header := Some
       [(''Squarespace'', ''high'',
         ''Squarespace server header'')],
      fp_meta_tag := Some
       [(''<meta[^>]+name=["\']generator["\'][^>]+content=["\']Squarespace'', ''high'',
         ''Squarespace generator meta tag''),
        (''<meta[^>]+content=["\']Squarespace[^"\']*["\'][^>]+name=["\']generator["\']'', ''high'',
         ''Squarespace generator meta tag (reversed)'')],
      fp_html_comment := Some
       [(''Squarespace'', ''medium'',
         ''Squarespace mention in HTML comment'')],
      fp_js_global := Some
       [((''window'' @ BSL @ ''.SQUARESPACE_ROLLUPS''), ''high'',
         ''Squarespace JS rollups global''),
        ((''Static'' @ BSL @ ''.SQUARESPACE_CONTEXT''), ''high'',
         ''Squarespace context global''),
        ((''Y'' @ BSL @ ''.Squarespace''), ''high'',
         ''Squarespace YUI namespace'')],
      fp_css_class := Some
       [((BSL @ ''bsqs-block'' @ BSL @ ''b''), ''high'',
         ''Squarespace block CSS class''),
        ((BSL @ ''bsqs-layout'' @ BSL @ ''b''), ''high'',
         ''Squarespace layout CSS class''),
        ((BSL @ ''bsqs-col-wrapper'' @ BSL @ ''b''), ''high'',
         ''Squarespace col wrapper CSS class'')],
      fp_script_src := Some
       [((''static'' @ BSL @ ''d*'' @ BSL @ ''.squarespace'' @ BSL @ ''.com''), ''high'',
         ''Squarespace static CDN''),
        ((''squarespace'' @ BSL @ ''.com/universal/scripts''), ''high'',
         ''Squarespace universal scripts'')],
      fp_link_href := Some
       [((''static'' @ BSL @ ''d*'' @ BSL @ ''.squarespace'' @ BSL @ ''.com''), ''high'',
         ''Squarespace CDN stylesheet'')]\<rparr>\<close>

definition GitHub_Pages_fingerprint :: PlatformFingerprint where
  \<open>GitHub_Pages_fingerprint = no_patterns
     \<lparr>fp_hostname := Some
       [((BSL @ ''.github'' @ BSL @ ''.io$''), ''high'',
         ''GitHub Pages subdomain (.github.io)'')],
      fp_http_header := Some
       [((''GitHub'' @ BSL @ ''.com''), ''high'',
         ''GitHub.com server header'')],
      fp_html_comment := Some
       [((''[Gg]it[Hh]ub'' @ BSL @ ''s*[Cc]opilot|[Cc]opilot'' @ BSL @ ''s*[Ww]orkspace''), ''low'',
         ''GitHub Copilot mention in HTML comment'')]\<rparr>\<close>

definition Cursor_AI_fingerprint :: PlatformFingerprint where
  \<open>Cursor_AI_fingerprint = no_patterns
     \<lparr>fp_html_comment := Some
       [((''[Cc]ursor'' @ BSL @ ''s*[Aa][Ii]|built'' @ BSL @ ''s+with'' @ BSL @ ''s+[Cc]ursor''), ''low'',
         ''Cursor AI mention in HTML comment'')],
      fp_meta_tag := Some
       [((''<meta[^>]+content=["\'][Cc]ursor'' @ BSL @ ''s*[Aa][Ii]["\']''), ''low'',
         ''Cursor AI meta tag'')]\<rparr>\<close>

definition FINGERPRINTS :: "(string \<times> PlatformFingerprint) list" where
  "FINGERPRINTS =
     [(''Framer'', Framer_fingerprint),
      (''Webflow'', Webflow_fingerprint),
      (''Bolt'', Bolt_fingerprint),
      (''v0 (Vercel)'', v0_Vercel_fingerprint),
      (''Wix'', Wix_fingerprint),
      (''Lovable'', Lovable_fingerprint),
      (''Squarespace'', Squarespace_fingerprint),
      (''GitHub Pages'', GitHub_Pages_fingerprint),
      (''Cursor AI'', Cursor_AI_fingerprint)]"


section \<open>AI heuristic signals\<close>

definition OVER_COMMENTER_PATTERNS :: "regex list" where
  \<open>OVER_COMMENTER_PATTERNS =
     [((BSL @ ''/'' @ BSL @ ''/'' @ BSL @ ''s*(This function|Here we|Loop through|Initialize the|Check if|This will|We need to|Now we|First we|Get the|Set the|Add the|Create the|Update the|Handle the|This is (a|the)|This component|This page|This renders|The following)''),
       ''i''),
      ((BSL @ ''/'' @ BSL @ ''*'' @ BSL @ ''s*(This function|Initialize|Loop|Handle|Create|Update|Get|Set|Add)'' @ BSL @ ''b''),
       ''i''),
      ((''<!--'' @ BSL @ ''s*(This section|This is the|Navigation|Header section|Footer section|Main content|Hero section|This div|Wrapper for|Container for)''),
       ''i'')]\<close>

definition SHADCN_PATTERNS :: "regex list" where
  \<open>SHADCN_PATTERNS =
     [(''rounded-lg border bg-card text-card-foreground shadow'',
       ''''),
      (''inline-flex items-center justify-center (gap-2 )?whitespace-nowrap rounded-md text-sm font-medium'',
       ''''),
      ((''inline-flex items-center rounded-full border px-2'' @ BSL @ ''.5 py-0'' @ BSL @ ''.5 text-xs font-semibold''),
       ''''),
      (''flex h-(?:9|10) w-full rounded-md border border-input bg-background px-3 py-[12]'',
       ''''),
      ((''fixed inset-0 z-50 bg-black'' @ BSL @ ''/80''),
       ''''),
      (''fixed inset-y-0 z-50 flex (h-full )?flex-col'',
       ''''),
      ((''function cn'' @ BSL @ ''([^)]*'' @ BSL @ '')'' @ BSL @ ''s*'' @ BSL @ ''{['' @ BSL @ ''s'' @ BSL @ ''S]{0,100}clsx|twMerge''),
       ''''),
      ((''@radix-ui'' @ BSL @ ''/''),
       '''')]\<close>

definition TAILWIND_PATTERNS :: "regex list" where
  \<open>TAILWIND_PATTERNS =
     [(''class(?:Name)?="[^"]*(?:flex|grid)[^"]*(?:items-center|justify-between)[^"]*(?:gap-|space-)[^"]*"'',
       ''''),
      (''class(?:Name)?="[^"]*(?:sm:|md:|lg:|xl:|dark:){3,}[^"]*"'',
       ''''),
      (''(?:bg|text|border)-(?:slate|gray|zinc|neutral|stone|blue|indigo|violet|purple)-(?:50|100|200|300|400|500|600|700|800|900|950)'',
       '''')]\<close>

definition VITE_PATTERNS :: "regex list" where
  \<open>VITE_PATTERNS =
     [((BSL @ ''/assets'' @ BSL @ ''/index-[A-Za-z0-9_-]{6,12}'' @ BSL @ ''.js''),
       ''''),
      ((BSL @ ''/assets'' @ BSL @ ''/index-[A-Za-z0-9_-]{6,12}'' @ BSL @ ''.css''),
       '''')]\<close>

definition REACT_SPA_PATTERNS :: "regex list" where
  \<open>REACT_SPA_PATTERNS =
     [((''<div id="root">'' @ BSL @ ''s*<'' @ BSL @ ''/div>''),
       ''''),
      ((''<div id="app">'' @ BSL @ ''s*<'' @ BSL @ ''/div>''),
       '''')]\<close>

definition LUCIDE_PATTERNS :: "regex list" where
  \<open>LUCIDE_PATTERNS =
     [(''lucide[-_]react'',
       ''i''),
      (''lucide'',
       ''i''),
      ((''M'' @ BSL @ ''s*12'' @ BSL @ ''s+2[Cc]'' @ BSL @ ''s*6'' @ BSL @ ''.477'' @ BSL @ ''s+2''),
       ''''),
      ((''M'' @ BSL @ ''s*3'' @ BSL @ ''s+12[Hh]'' @ BSL @ ''s*21''),
       '''')]\<close>

definition PLACEHOLDER_LINK_PATTERNS :: "regex list" where
  \<open>PLACEHOLDER_LINK_PATTERNS =
     [((''href=["\']https?:'' @ BSL @ ''/'' @ BSL @ ''/(?:www'' @ BSL @ ''.)?example'' @ BSL @ ''.com["\']''),
       ''gi''),
      ((''href=["\']https?:'' @ BSL @ ''/'' @ BSL @ ''/(?:www'' @ BSL @ ''.)?yourdomain'' @ BSL @ ''.com["\']''),
       ''gi''),
      ((''href=["\']https?:'' @ BSL @ ''/'' @ BSL @ ''/(?:www'' @ BSL @ ''.)?placeholder'' @ BSL @ ''.com["\']''),
       ''gi''),
      ((''action=["\']'' @ BSL @ ''/api'' @ BSL @ ''/your[-_]endpoint["\']''),
       ''gi''),
      ((''["\']https?:'' @ BSL @ ''/'' @ BSL @ ''/api'' @ BSL @ ''.example'' @ BSL @ ''.com'' @ BSL @ ''/''),
       ''gi''),
      ((''href=["\']mailto:you@example'' @ BSL @ ''.com["\']''),
       ''gi''),
      ((''href=["\']mailto:email@yourdomain'' @ BSL @ ''.com["\']''),
       ''gi''),
      ((''href=["\']mailto:info@yourcompany'' @ BSL @ ''.com["\']''),
       ''gi'')]\<close>

definition GENERIC_NAMING_PATTERNS :: "regex list" where
  \<open>GENERIC_NAMING_PATTERNS =
     [((''class(?:Name)?="[^"]*'' @ BSL @ ''b(?:container|wrapper|section|block|div|col|row|item|card|box|panel|element|component)-'' @ BSL @ ''d+'' @ BSL @ ''b''),
       ''gi''),
      ((''id="[^"]*'' @ BSL @ ''b(?:container|wrapper|section|block|div)-'' @ BSL @ ''d+'' @ BSL @ ''b''),
       ''gi''),
      ((BSL @ ''bdata-(?:block|wrapper|element|component)="'' @ BSL @ ''d*"''),
       ''gi'')]\<close>

definition PROTOTYPE_HOSTING_HOSTNAMES :: "regex list" where
  \<open>PROTOTYPE_HOSTING_HOSTNAMES =
     [((BSL @ ''.vercel'' @ BSL @ ''.app$''),
       ''i''),
      ((BSL @ ''.netlify'' @ BSL @ ''.app$''),
       ''i''),
      ((BSL @ ''.pages'' @ BSL @ ''.dev$''),
       ''i''),
      ((BSL @ ''.onrender'' @ BSL @ ''.com$''),
       ''i''),
      ((BSL @ ''.fly'' @ BSL @ ''.dev$''),
       ''i''),
      ((BSL @ ''.railway'' @ BSL @ ''.app$''),
       ''i''),
      ((BSL @ ''.up'' @ BSL @ ''.railway'' @ BSL @ ''.app$''),
       ''i''),
      ((BSL @ ''.glitch'' @ BSL @ ''.me$''),
       ''i''),
      ((BSL @ ''.stackblitz'' @ BSL @ ''.io$''),
       ''i''),
      ((BSL @ ''.codesandbox'' @ BSL @ ''.io$''),
       ''i'')]\<close>

definition AI_GENERATOR_META_PATTERNS :: "regex list" where
  \<open>AI_GENERATOR_META_PATTERNS =
     [((''<meta[^>]+name=["\']generator["\'][^>]+content=["\'][^"\']*(?:Hostinger'' @ BSL @ ''s*AI|AI'' @ BSL @ ''s*Website|Durable'' @ BSL @ ''.co|10Web|Jimdo'' @ BSL @ ''s*AI|GoDaddy'' @ BSL @ ''s*AI|Wix'' @ BSL @ ''s*ADI|Zyro)[^"\']*["\']''),
       ''i''),
      ((''<meta[^>]+content=["\'][^"\']*(?:Hostinger'' @ BSL @ ''s*AI|AI'' @ BSL @ ''s*Website|Durable'' @ BSL @ ''.co|10Web|Jimdo'' @ BSL @ ''s*AI|GoDaddy'' @ BSL @ ''s*AI|Wix'' @ BSL @ ''s*ADI|Zyro)[^"\']*["\'][^>]+name=["\']generator["\']''),
       ''i'')]\<close>


section \<open>Scoring\<close>

definition CONFIDENCE_WEIGHTS :: "jsval js_object" where
  "CONFIDENCE_WEIGHTS = [(''high'', NumVal 10), (''medium'', NumVal 5), (''low'', NumVal 2)]"

definition MIN_PLATFORM_SCORE :: real where "MIN_PLATFORM_SCORE = 5"
definition MIN_AI_SCORE :: real where "MIN_AI_SCORE = 10"
definition CATEGORY_CAP :: real where "CATEGORY_CAP = 15"

text \<open>The body of the \<open>for\<close> loop of \<open>scoreSignals\<close>.\<close>

definition add_signal :: "jsval js_object \<Rightarrow> Signal \<Rightarrow> jsval js_object" where
  "add_signal byCategory sig =
     (let w = nullish_or (get_member CONFIDENCE_WEIGHTS (confidence sig)) (NumVal 1)
      in set_member byCategory (category sig)
           (js_plus (nullish_or (get_member byCategory (category sig)) (NumVal 0)) w))"

text \<open>\<open>Object.values\<close> lists the own properties; keys that look like array indices come
  first, which only permutes the summands of the \<open>reduce\<close>.\<close>

definition scoreSignals :: "Signal list \<Rightarrow> number" where
  "scoreSignals signals =
     (let byCategory = foldl add_signal [] signals
      in foldl (\<lambda>sum v. num_plus sum (Math_min v CATEGORY_CAP)) (Num 0) (map snd byCategory))"

definition confidenceLabel :: "number \<Rightarrow> number \<Rightarrow> ConfidenceLabel" where
  "confidenceLabel score mn =
     (if num_ge score (num_times mn (Num 3)) then ConfHigh
      else if num_ge score (num_times mn (Num 1.5)) then ConfMedium
      else if num_ge score mn then ConfLow
      else ConfNone)"

section \<open>Pattern matching helpers\<close>

definition matchAll :: "runtime \<Rightarrow> string \<Rightarrow> PatternEntry list \<Rightarrow> string \<Rightarrow> Signal list" where
  "matchAll E html patterns cat =
     concat (map (\<lambda>(pat, conf, desc).
       case re_first E (pat, ''is'') html of
         None \<Rightarrow> []
       | Some (m0, g1) \<Rightarrow>
           [\<lparr>category = cat, description = desc, confidence = conf,
             matchedValue = take 120 m0\<rparr>]) patterns)"

text \<open>The inner loop of \<open>matchTagSrcs\<close>: it stops at the first URL pattern that
  matches the tag's URL.\<close>

definition tagSignal :: "runtime \<Rightarrow> PatternEntry list \<Rightarrow> string \<Rightarrow> string \<Rightarrow> Signal list" where
  "tagSignal E urlPatterns cat src =
     (case find (\<lambda>(pat, conf, desc). RegExp_test E (pat, ''i'') src) urlPatterns of
        None \<Rightarrow> []
      | Some (pat, conf, desc) \<Rightarrow>
          [\<lparr>category = cat, description = desc, confidence = conf,
            matchedValue = take 120 src\<rparr>])"

definition matchTagSrcs ::
  "runtime \<Rightarrow> string \<Rightarrow> string \<Rightarrow> PatternEntry list \<Rightarrow> string \<Rightarrow> Signal list" where
  "matchTagSrcs E html tagPattern urlPatterns cat =
     concat (map (\<lambda>(m0, src). tagSignal E urlPatterns cat src)
       (re_all E (tagPattern, ''gi'') html))"

definition extractHostname :: "runtime \<Rightarrow> string \<Rightarrow> string" where
  "extractHostname E u =
     (case url_hostname E u of Some h \<Rightarrow> toLowerCase h | None \<Rightarrow> toLowerCase u)"


section \<open>Platform detector\<close>

text \<open>The response headers are a dictionary from lower-cased names to values; the
  names read below are fixed texts, none of them an inherited member name, so a read is
  a lookup among the own properties.\<close>

text \<open>The blocks of \<open>detectPlatform\<close>, in the order in which they push signals.\<close>

definition hostnameSignals :: "runtime \<Rightarrow> PlatformFingerprint \<Rightarrow> string \<Rightarrow> Signal list" where
  "hostnameSignals E fp hostname =
     (case fp_hostname fp of
        None \<Rightarrow> []
      | Some ps \<Rightarrow>
          concat (map (\<lambda>(pat, conf, desc).
            if RegExp_test E (pat, ''i'') hostname
            then [\<lparr>category = ''hostname'', description = desc, confidence = conf,
                   matchedValue = hostname\<rparr>]
            else []) ps))"

definition serverHeaderSignals ::
  "runtime \<Rightarrow> PlatformFingerprint \<Rightarrow> string js_object \<Rightarrow> Signal list" where
  "serverHeaderSignals E fp headers =
     (case fp_http_header fp of
        None \<Rightarrow> []
      | Some ps \<Rightarrow>
          (let server = nullish_or (map_of headers ''server'') ''''
           in concat (map (\<lambda>(pat, conf, desc).
                if RegExp_test E (pat, ''i'') server
                then [\<lparr>category = ''http_header'',
                       description = desc @ '' [server: '' @ take 60 server @ '']'',
                       confidence = conf, matchedValue = take 60 server\<rparr>]
                else []) ps)))"

text \<open>The body of \<open>if (platform === "Wix")\<close>.\<close>

definition wixHeaderSignals :: "runtime \<Rightarrow> string js_object \<Rightarrow> Signal list" where
  "wixHeaderSignals E headers =
     (let pepyaka = nullish_or (map_of headers ''server'') ''''
      in (if RegExp_test E (''Pepyaka'', ''i'') pepyaka
          then [\<lparr>category = ''http_header'',
                 description = ''Wix Pepyaka server [server: '' @ pepyaka @ '']'',
                 confidence = ''high'', matchedValue = pepyaka\<rparr>]
          else [])
       @ (if trim (nullish_or (map_of headers ''x-meta-site-is-wix-site'') '''') = ''1''
          then [\<lparr>category = ''http_header'',
                 description = ''Wix site confirmation header'',
                 confidence = ''high'', matchedValue = ''1''\<rparr>]
          else []))"

text \<open>The body of \<open>if (platform === "Bolt")\<close>.\<close>

definition boltHeaderSignals :: "string js_object \<Rightarrow> Signal list" where
  "boltHeaderSignals headers =
     (let sv = nullish_or (map_of headers ''server-version'') ''''
      in if sv \<noteq> ''''
         then [\<lparr>category = ''http_header'',
                description = ''Bolt server-version header ['' @ take 60 sv @ '']'',
                confidence = ''high'', matchedValue = take 60 sv\<rparr>]
         else [])"

definition htmlCategories :: "string list" where
  "htmlCategories =
     [''meta_tag'', ''html_comment'', ''data_attribute'', ''css_class'',
      ''css_variable'', ''js_global'', ''dom_id'', ''script_content'', ''font'']"

definition htmlPatternSignals :: "runtime \<Rightarrow> PlatformFingerprint \<Rightarrow> string \<Rightarrow> Signal list" where
  "htmlPatternSignals E fp html =
     concat (map (\<lambda>cat.
       case fp_field cat fp of None \<Rightarrow> [] | Some patterns \<Rightarrow> matchAll E html patterns cat)
       htmlCategories)"

definition cdnUrlSignals :: "runtime \<Rightarrow> PlatformFingerprint \<Rightarrow> string \<Rightarrow> Signal list" where
  \<open>cdnUrlSignals E fp html =
     (case fp_script_src fp of
        None \<Rightarrow> []
      | Some ps \<Rightarrow> matchTagSrcs E html ''<script[^>]+src=["\']([^"\']+)["\']'' ps ''cdn_url'')
     @ (case fp_link_href fp of
          None \<Rightarrow> []
        | Some ps \<Rightarrow> matchTagSrcs E html ''<link[^>]+href=["\']([^"\']+)["\']'' ps ''cdn_url'')
     @ (case fp_img_src fp of
          None \<Rightarrow> []
        | Some ps \<Rightarrow> matchTagSrcs E html ''<img[^>]+src=["\']([^"\']+)["\']'' ps ''cdn_url'')\<close>

definition detectPlatform ::
  "runtime \<Rightarrow> string \<Rightarrow> PlatformFingerprint \<Rightarrow> string \<Rightarrow> string js_object \<Rightarrow> string
     \<Rightarrow> Signal list" where
  "detectPlatform E platformName fp html headers finalUrl' =
     (let hostname = extractHostname E finalUrl'
      in hostnameSignals E fp hostname
       @ serverHeaderSignals E fp headers
       @ (if platformName = ''Wix'' then wixHeaderSignals E headers else [])
       @ (if platformName = ''Bolt'' then boltHeaderSignals headers else [])
       @ htmlPatternSignals E fp html
       @ cdnUrlSignals E fp html)"


section \<open>AI heuristic detector\<close>

text \<open>The first part of \<open>detectAiHeuristics\<close>: the text of the first script bundle
  under \<open>/assets/\<close>, at most 300000 bytes of it, or the empty text when there is no
  such script tag, when its URL does not parse, or when the fetch fails.\<close>

definition fetchJsSource :: "runtime \<Rightarrow> string \<Rightarrow> string \<Rightarrow> string" where
  \<open>fetchJsSource E html finalUrl' =
     (case re_first E
             ((''src=["\']([^"\']*'' @ BSL @ ''/assets'' @ BSL @ ''/[^"\']+'' @ BSL @ ''.js)[\'"]''),
              ''i'') html of
        None \<Rightarrow> ''''
      | Some (m0, g1) \<Rightarrow>
          (case (if startsWith g1 ''http'' then Some g1 else url_href E g1 finalUrl') of
             None \<Rightarrow> ''''
           | Some jsUrl \<Rightarrow>
               (case fetch_script E jsUrl of
                  Threw msg \<Rightarrow> ''''
                | Returned buf \<Rightarrow> text_decode E (take 300000 buf))))\<close>

text \<open>\<open>matches?.length ?? 0\<close> summed over a pattern list.\<close>

definition count_matches :: "runtime \<Rightarrow> regex list \<Rightarrow> string \<Rightarrow> nat" where
  "count_matches E pats s = sum_list (map (\<lambda>r. length (re_all E r s)) pats)"

text \<open>The number of patterns of a list that are found.\<close>

definition count_found :: "runtime \<Rightarrow> regex list \<Rightarrow> string \<Rightarrow> nat" where
  "count_found E pats s = length (filter (\<lambda>r. RegExp_test E r s) pats)"

definition isPrototypeHost :: "runtime \<Rightarrow> string \<Rightarrow> bool" where
  "isPrototypeHost E hostname = list_ex (\<lambda>p. RegExp_test E p hostname) PROTOTYPE_HOSTING_HOSTNAMES"

definition vercelId :: "string js_object \<Rightarrow> string" where
  "vercelId headers =
     nullish_or (map_of headers ''x-vercel-id'')
       (nullish_or (map_of headers ''x-vercel-cache'') '''')"

definition netlifyHdr :: "string js_object \<Rightarrow> string" where
  "netlifyHdr headers =
     nullish_or (map_of headers ''x-nf-request-id'')
       (nullish_or (map_of headers ''x-netlify'') '''')"

text \<open>The numbered parts of \<open>detectAiHeuristics\<close>, each with the signals it pushes.\<close>

text \<open>1. Over-commenter detection.\<close>

definition overCommenterSignals :: "nat \<Rightarrow> Signal list" where
  "overCommenterSignals commentHits =
     (if commentHits \<ge> 5
      then [\<lparr>category = ''over_commenter'',
             description = ''Tutorial-style comments detected ('' @ String_of commentHits
               @ '' matches) '' @ EM_DASH @ '' AI models over-explain trivial code'',
             confidence = ''high'', matchedValue = String_of commentHits\<rparr>]
      else if commentHits \<ge> 2
      then [\<lparr>category = ''over_commenter'',
             description = ''Some tutorial-style comments detected ('' @ String_of commentHits
               @ '' matches)'',
             confidence = ''medium'', matchedValue = String_of commentHits\<rparr>]
      else [])"

text \<open>2. shadcn/ui signatures.\<close>

definition shadcnSignals :: "nat \<Rightarrow> Signal list" where
  "shadcnSignals shadcnHits =
     (if shadcnHits \<ge> 3
      then [\<lparr>category = ''shadcn_ui'',
             description = ''shadcn/ui component signatures detected ('' @ String_of shadcnHits
               @ '' patterns) '' @ EM_DASH @ '' AI coding tools default to shadcn'',
             confidence = ''high'', matchedValue = String_of shadcnHits\<rparr>]
      else if shadcnHits \<ge> 1
      then [\<lparr>category = ''shadcn_ui'',
             description = ''shadcn/ui component signatures detected ('' @ String_of shadcnHits
               @ '' patterns)'',
             confidence = ''medium'', matchedValue = String_of shadcnHits\<rparr>]
      else [])"

text \<open>3. Tailwind utility class patterns.\<close>

definition tailwindSignals :: "nat \<Rightarrow> Signal list" where
  "tailwindSignals tailwindHits =
     (if tailwindHits \<ge> 2
      then [\<lparr>category = ''tailwind_stack'',
             description = ''Tailwind CSS utility pattern detected '' @ EM_DASH
               @ '' common AI default stack'',
             confidence = ''medium'', matchedValue = String_of tailwindHits\<rparr>]
      else [])"

text \<open>4. Vite build artifacts.\<close>

definition viteSignals :: "nat \<Rightarrow> bool \<Rightarrow> Signal list" where
  "viteSignals viteHits reactSpa =
     (if viteHits \<ge> 1
      then [\<lparr>category = ''vite_build'',
             description =
               (if reactSpa
                then ''Vite build artifacts + React SPA root '' @ EM_DASH
                       @ '' AI tools default to Vite + React''
                else ''Vite build artifacts detected''),
             confidence = (if reactSpa then ''medium'' else ''low''),
             matchedValue = ''vite''\<rparr>]
      else [])"

text \<open>5. Lucide icons.\<close>

definition lucideSignals :: "bool \<Rightarrow> Signal list" where
  "lucideSignals lucideHit =
     (if lucideHit
      then [\<lparr>category = ''lucide_icons'',
             description = ''Lucide icon library detected '' @ EM_DASH
               @ '' heavily favoured by AI coding tools'',
             confidence = ''medium'', matchedValue = ''lucide''\<rparr>]
      else [])"

text \<open>6. Inter font.\<close>

definition interFontSignals :: "bool \<Rightarrow> Signal list" where
  "interFontSignals interFont =
     (if interFont
      then [\<lparr>category = ''inter_font'',
             description = ''Inter font detected '' @ EM_DASH
               @ '' AI tools almost universally default to Inter'',
             confidence = ''low'', matchedValue = ''Inter''\<rparr>]
      else [])"

text \<open>7. Hallucinated or placeholder links.\<close>

definition placeholderSignals :: "nat \<Rightarrow> Signal list" where
  "placeholderSignals placeholderHits =
     (if placeholderHits \<ge> 3
      then [\<lparr>category = ''placeholder_links'',
             description = ''Placeholder/hallucinated links detected (''
               @ String_of placeholderHits @ '') '' @ EM_DASH
               @ '' e.g. example.com, yourdomain.com, fake API endpoints'',
             confidence = ''high'', matchedValue = String_of placeholderHits\<rparr>]
      else if placeholderHits \<ge> 1
      then [\<lparr>category = ''placeholder_links'',
             description = ''Placeholder link detected ('' @ String_of placeholderHits
               @ '') '' @ EM_DASH @ '' e.g. example.com or yourdomain.com'',
             confidence = ''medium'', matchedValue = String_of placeholderHits\<rparr>]
      else [])"

text \<open>8. Generic numbered naming conventions.\<close>

definition namingSignals :: "nat \<Rightarrow> Signal list" where
  "namingSignals namingHits =
     (if namingHits \<ge> 4
      then [\<lparr>category = ''generic_naming'',
             description = ''Generic numbered class/ID names detected ('' @ String_of namingHits
               @ '') '' @ EM_DASH @ '' e.g. .container-1, .wrapper-2, .section-3'',
             confidence = ''medium'', matchedValue = String_of namingHits\<rparr>]
      else if namingHits \<ge> 2
      then [\<lparr>category = ''generic_naming'',
             description = ''Some generic numbered class names detected (''
               @ String_of namingHits @ '')'',
             confidence = ''low'', matchedValue = String_of namingHits\<rparr>]
      else [])"

text \<open>9. Prototype hosting.\<close>

definition prototypeHostingSignals :: "bool \<Rightarrow> string \<Rightarrow> Signal list" where
  "prototypeHostingSignals prototypeHost hostname =
     (if prototypeHost
      then [\<lparr>category = ''prototype_hosting'',
             description = ''Hosted on a prototype/AI-default platform subdomain (''
               @ hostname @ '')'',
             confidence = ''medium'', matchedValue = hostname\<rparr>]
      else [])"

text \<open>10. Vercel and Netlify hosting headers.\<close>

definition hostingHeaderSignals :: "string js_object \<Rightarrow> bool \<Rightarrow> Signal list" where
  "hostingHeaderSignals headers prototypeHost =
     (if vercelId headers \<noteq> '''' \<and> \<not> prototypeHost
      then [\<lparr>category = ''hosting_platform'',
             description = ''Hosted on Vercel (common AI-assisted site host)'',
             confidence = ''low'', matchedValue = ''vercel''\<rparr>]
      else [])
     @ (if netlifyHdr headers \<noteq> '''' \<and> \<not> prototypeHost
        then [\<lparr>category = ''hosting_platform'',
               description = ''Hosted on Netlify (common AI-assisted site host)'',
               confidence = ''low'', matchedValue = ''netlify''\<rparr>]
        else [])"

text \<open>11. AI generator meta tags: the first pattern that matches, and no other.\<close>

fun generatorMetaSignals :: "runtime \<Rightarrow> regex list \<Rightarrow> string \<Rightarrow> Signal list" where
  "generatorMetaSignals E [] html = []"
| "generatorMetaSignals E (pat # pats) html =
     (case re_first E pat html of
        Some (m0, g1) \<Rightarrow>
          [\<lparr>category = ''ai_generator_meta'',
            description = ''AI website builder generator meta tag detected'',
            confidence = ''high'', matchedValue = take 120 m0\<rparr>]
      | None \<Rightarrow> generatorMetaSignals E pats html)"

definition detectAiHeuristics ::
  "runtime \<Rightarrow> string \<Rightarrow> string js_object \<Rightarrow> string \<Rightarrow> Signal list" where
  \<open>detectAiHeuristics E html headers finalUrl' =
     (let hostname = extractHostname E finalUrl';
          jsSource = fetchJsSource E html finalUrl';
          fullSource = html @ [CHR 0x0A] @ jsSource;
          commentHits = count_matches E
            (map (\<lambda>(src, fl). (src, if CHR ''g'' \<in> set fl then fl else fl @ ''g''))
               OVER_COMMENTER_PATTERNS) fullSource;
          shadcnHits = count_found E SHADCN_PATTERNS fullSource;
          tailwindHits = count_found E TAILWIND_PATTERNS fullSource;
          viteHits = count_found E VITE_PATTERNS html;
          reactSpa = list_ex (\<lambda>p. RegExp_test E p html) REACT_SPA_PATTERNS;
          lucideHit = list_ex (\<lambda>p. RegExp_test E p fullSource) LUCIDE_PATTERNS;
          interFont =
            (RegExp_test E ((''fonts'' @ BSL @ ''.googleapis'' @ BSL @ ''.com[^"\']*[Ii]nter''), '''') html
             \<or> RegExp_test E (''font-family:[^;\'"]*[\'"]Inter[\'"]'', '''') fullSource
             \<or> RegExp_test E (''[\'"]Inter[\'"],'', '''') fullSource);
          placeholderHits = count_matches E
            (map (\<lambda>(src, fl). (src, ''gi'')) PLACEHOLDER_LINK_PATTERNS) html;
          namingHits = count_matches E
            (map (\<lambda>(src, fl). (src, ''gi'')) GENERIC_NAMING_PATTERNS) html;
          prototypeHost = isPrototypeHost E hostname
      in overCommenterSignals commentHits
       @ shadcnSignals shadcnHits
       @ tailwindSignals tailwindHits
       @ viteSignals viteHits reactSpa
       @ lucideSignals lucideHit
       @ interFontSignals interFont
       @ placeholderSignals placeholderHits
       @ namingSignals namingHits
       @ prototypeHostingSignals prototypeHost hostname
       @ hostingHeaderSignals headers prototypeHost
       @ generatorMetaSignals E AI_GENERATOR_META_PATTERNS html)\<close>


section \<open>Main entry point\<close>

text \<open>\<open>Array.prototype.sort\<close> is stable: elements the comparator does not order keep
  their places. It is written as the insertion sort that has this property; a
  comparator result that is \<open>NaN\<close> counts as 0. \<open>Object.entries\<close> lists own
  properties in insertion order (no platform name looks like an array index).\<close>

fun positive :: "number \<Rightarrow> bool" where
  "positive (Num r) = (r > 0)"
| "positive NaN = False"

fun insert_sorted :: "('a \<Rightarrow> 'a \<Rightarrow> number) \<Rightarrow> 'a \<Rightarrow> 'a list \<Rightarrow> 'a list" where
  "insert_sorted cmp x [] = [x]"
| "insert_sorted cmp x (y # ys) =
     (if positive (cmp x y) then y # insert_sorted cmp x ys else x # y # ys)"

definition Array_sort :: "('a \<Rightarrow> 'a \<Rightarrow> number) \<Rightarrow> 'a list \<Rightarrow> 'a list" where
  "Array_sort cmp xs = foldr (insert_sorted cmp) xs []"

text \<open>Lines 869 and 870: the first entry after sorting by descending score, or the
  pair of the empty name and 0 when there is no entry.\<close>

definition bestEntry :: "number js_object \<Rightarrow> string \<times> number" where
  "bestEntry scores =
     (case Array_sort (\<lambda>a b. num_minus (snd b) (snd a)) scores of
        [] \<Rightarrow> ('''', Num 0)
      | e # rest \<Rightarrow> e)"

text \<open>The \<open>try\<close> block of \<open>detectUrl\<close>: the page text, the header dictionary, the
  final URL and the error message, as they stand after the block. \<open>finalUrl\<close> and
  the headers are assigned before the body is read, so they keep their values when
  reading the body throws.\<close>

definition primaryFetch ::
  "runtime \<Rightarrow> string \<Rightarrow> nat \<Rightarrow> string \<times> string js_object \<times> string \<times> string option" where
  "primaryFetch E theUrl timeoutMs =
     (case fetch_page E theUrl timeoutMs of
        Threw msg \<Rightarrow> ('''', [], theUrl, Some msg)
      | Returned response \<Rightarrow>
          (let finalUrl' = (if response_url response \<noteq> '''' then response_url response
                            else theUrl);
               responseHeaders =
                 foldl (\<lambda>hs (k, v). set_member hs (toLowerCase k) v) []
                   (response_headers response)
           in case response_text response of
                Threw msg \<Rightarrow> ('''', responseHeaders, finalUrl', Some msg)
              | Returned body \<Rightarrow> (body, responseHeaders, finalUrl', None)))"

definition normalizeUrl :: "string \<Rightarrow> string" where
  "normalizeUrl rawUrl =
     (let u = trim rawUrl
      in if \<not> startsWith u ''http://'' \<and> \<not> startsWith u ''https://''
         then ''https://'' @ u else u)"

text \<open>\<open>if (fetchError)\<close> holds for a message that is not the empty text.\<close>

definition truthy :: "string option \<Rightarrow> bool" where
  "truthy x = (case x of None \<Rightarrow> False | Some s \<Rightarrow> s \<noteq> '''')"

definition detectUrl :: "runtime \<Rightarrow> string \<Rightarrow> nat \<Rightarrow> DetectionResult" where
  "detectUrl E rawUrl timeoutMs =
     (case primaryFetch E (normalizeUrl rawUrl) timeoutMs of
        (html, responseHeaders, finalUrl', fetchError) \<Rightarrow>
          if truthy fetchError
          then \<lparr>url = rawUrl, finalUrl = finalUrl',
                 bucket = Unknown, bucketConfidence = ConfNone,
                 platform = None, platformScore = Num 0, platformSignals = [],
                 allPlatformScores = [],
                 aiScore = Num 0, aiSignals = [],
                 error = fetchError\<rparr>
          else
            (let allScores =
                   foldl (\<lambda>acc (name, fp).
                       set_member acc name
                         (scoreSignals (detectPlatform E name fp html responseHeaders finalUrl')))
                     [] FINGERPRINTS;
                 allPlatformSignalsMap =
                   foldl (\<lambda>acc (name, fp).
                       set_member acc name
                         (detectPlatform E name fp html responseHeaders finalUrl'))
                     [] FINGERPRINTS;
                 bestPlatform = fst (bestEntry allScores);
                 bestPlatformScore = snd (bestEntry allScores);
                 signals = detectAiHeuristics E html responseHeaders finalUrl';
                 score = scoreSignals signals
             in if num_ge bestPlatformScore (Num MIN_PLATFORM_SCORE)
                then \<lparr>url = rawUrl, finalUrl = finalUrl',
                       bucket = PlatformAssisted,
                       bucketConfidence =
                         confidenceLabel bestPlatformScore (Num MIN_PLATFORM_SCORE),
                       platform = Some bestPlatform, platformScore = bestPlatformScore,
                       platformSignals =
                         nullish_or (map_of allPlatformSignalsMap bestPlatform) [],
                       allPlatformScores = allScores,
                       aiScore = score, aiSignals = signals, error = None\<rparr>
                else if num_ge score (Num MIN_AI_SCORE)
                then \<lparr>url = rawUrl, finalUrl = finalUrl',
                       bucket = AiAssisted,
                       bucketConfidence = confidenceLabel score (Num MIN_AI_SCORE),
                       platform = None, platformScore = Num 0, platformSignals = [],
                       allPlatformScores = allScores,
                       aiScore = score, aiSignals = signals, error = None\<rparr>
                else \<lparr>url = rawUrl, finalUrl = finalUrl',
                       bucket = NoAiSignals, bucketConfidence = ConfNone,
                       platform = None, platformScore = Num 0, platformSignals = [],
                       allPlatformScores = allScores,
                       aiScore = score, aiSignals = signals, error = None\<rparr>))"


section \<open>The aggregation as the specification words it\<close>

text \<open>Weight of a confidence tier: high 10, medium 5, low 2, anything else 1.\<close>

definition conf_weight :: "string \<Rightarrow> real" where
  "conf_weight c =
     (if c = ''high'' then 10 else if c = ''medium'' then 5 else if c = ''low'' then 2 else 1)"

text \<open>Uncapped weight sum of one category.\<close>

definition category_total :: "Signal list \<Rightarrow> string \<Rightarrow> real" where
  "category_total sigs c =
     sum_list (map (\<lambda>s. conf_weight (confidence s)) (filter (\<lambda>s. category s = c) sigs))"

text \<open>A key is plain when it does not name a member every object inherits. All
  category and confidence texts written in the detector are plain.\<close>

definition plain_key :: "string \<Rightarrow> bool" where
  "plain_key k = (k \<notin> set OBJECT_PROTOTYPE_NAMES)"

definition plain_signal :: "Signal \<Rightarrow> bool" where
  "plain_signal s = (plain_key (category s) \<and> plain_key (confidence s))"


text \<open>A dictionary whose values are all numbers, seen as a list of reals.\<close>

definition lift :: "(string \<times> real) list \<Rightarrow> jsval js_object" where
  "lift acc = map (\<lambda>(k, r). (k, NumVal r)) acc"

definition tot :: "(string \<times> real) list \<Rightarrow> string \<Rightarrow> real" where
  "tot acc k = (case map_of acc k of Some r \<Rightarrow> r | None \<Rightarrow> 0)"

definition bump :: "(string \<times> real) list \<Rightarrow> Signal \<Rightarrow> (string \<times> real) list" where
  "bump acc s =
     AList.update (category s) (tot acc (category s) + conf_weight (confidence s)) acc"


section \<open>Notions used to state the properties\<close>

text \<open>A table of finite scores, as the dictionary of numbers it is in the result.\<close>

definition numeric :: "(string \<times> real) list \<Rightarrow> number js_object" where
  "numeric tbl = map (\<lambda>(p, v). (p, Num v)) tbl"

text \<open>The first entry of a table that carries its largest score: an entry further right
  replaces it only with a strictly larger score.\<close>

fun first_max :: "(string \<times> real) list \<Rightarrow> string \<times> real" where
  "first_max [] = ('''', 0)"
| "first_max [e] = e"
| "first_max (e # es) = (if snd (first_max es) > snd e then first_max es else e)"

text \<open>The finite value of a score.\<close>

definition score_of :: "number \<Rightarrow> real" where
  "score_of x = (case x of Num v \<Rightarrow> v | NaN \<Rightarrow> 0)"

text \<open>The pattern groups of a fingerprint, and the property that every entry of every
  group carries one of the three declared confidence tiers, as the type \<open>PatternEntry\<close>
  demands.\<close>

definition fp_groups :: "PlatformFingerprint \<Rightarrow> PatternEntry list option list" where
  "fp_groups fp =
     [fp_hostname fp, fp_http_header fp, fp_meta_tag fp, fp_html_comment fp,
      fp_data_attribute fp, fp_css_class fp, fp_css_variable fp, fp_js_global fp, fp_dom_id fp,
      fp_script_content fp, fp_script_src fp, fp_link_href fp, fp_img_src fp, fp_font fp]"

definition declared_tier :: "PatternEntry \<Rightarrow> bool" where
  "declared_tier e = (fst (snd e) \<in> set [''high'', ''medium'', ''low''])"

definition tiers_declared :: "PlatformFingerprint \<Rightarrow> bool" where
  "tiers_declared fp =
     list_all (\<lambda>g. case g of None \<Rightarrow> True | Some ps \<Rightarrow> list_all declared_tier ps) (fp_groups fp)"


section \<open>A small runtime for worked examples\<close>

text \<open>
  The examples below need a concrete runtime. Its regular-expression engine knows the
  patterns made of literal characters, of the escaped punctuation \<open>\.\<close>, \<open>\/\<close>, \<open>\-\<close>
  and of the anchors \<open>^\<close> and \<open>$\<close>; on those it finds what a JavaScript engine finds
  (the leftmost occurrence, letters compared without case under the flag \<open>i\<close>), and
  it finds nothing for any other pattern. Its URL parser reads the host of an
  \<open>http\<close> or \<open>https\<close> URL; it resolves no relative reference. Its two fetches
  return the outcomes it is given, and its decoder returns the bytes as they are.
\<close>

definition meta_chars :: string where
  "meta_chars = ''.*+?()[]{}|^$'' @ BSL"

fun literal_text :: "string \<Rightarrow> string option" where
  "literal_text [] = Some []"
| "literal_text [c] = (if c \<in> set meta_chars then None else Some [c])"
| "literal_text (c # d # cs) =
     (if c = CHR 0x5C
      then (if d \<in> set ''./-'' then map_option ((#) d) (literal_text cs) else None)
      else if c \<in> set meta_chars then None
      else map_option ((#) c) (literal_text (d # cs)))"

definition parse_simple :: "string \<Rightarrow> (bool \<times> string \<times> bool) option" where
  "parse_simple src =
     (let a1 = (src \<noteq> [] \<and> hd src = CHR ''^'');
          s1 = (if a1 then tl src else src);
          a2 = (s1 \<noteq> [] \<and> last s1 = CHR ''$'');
          s2 = (if a2 then butlast s1 else s1)
      in map_option (\<lambda>b. (a1, b, a2)) (literal_text s2))"

definition fold_case :: "string \<Rightarrow> string \<Rightarrow> string" where
  "fold_case flags s = (if CHR ''i'' \<in> set flags then toLowerCase s else s)"

fun first_suffix :: "(string \<Rightarrow> bool) \<Rightarrow> string \<Rightarrow> string option" where
  "first_suffix P [] = (if P [] then Some [] else None)"
| "first_suffix P (c # cs) = (if P (c # cs) then Some (c # cs) else first_suffix P cs)"

fun all_suffix :: "(string \<Rightarrow> bool) \<Rightarrow> nat \<Rightarrow> string \<Rightarrow> string list" where
  "all_suffix P n [] = (if P [] then [[]] else [])"
| "all_suffix P n (c # cs) =
     (if P (c # cs) then take n (c # cs) # all_suffix P n (drop (n - 1) cs)
      else all_suffix P n cs)"

definition matches_here :: "string \<Rightarrow> string \<Rightarrow> bool \<Rightarrow> string \<Rightarrow> bool" where
  "matches_here flags body a2 suf =
     (fold_case flags (take (length body) suf) = fold_case flags body
      \<and> (a2 \<longrightarrow> length suf = length body))"

definition simple_first :: "regex \<Rightarrow> string \<Rightarrow> (string \<times> string) option" where
  "simple_first r s =
     (case parse_simple (fst r) of
        None \<Rightarrow> None
      | Some (a1, body, a2) \<Rightarrow>
          (case (if a1 then (if matches_here (snd r) body a2 s then Some s else None)
                 else first_suffix (matches_here (snd r) body a2) s) of
             None \<Rightarrow> None
           | Some suf \<Rightarrow> Some (take (length body) suf, '''')))"

definition simple_all :: "regex \<Rightarrow> string \<Rightarrow> (string \<times> string) list" where
  "simple_all r s =
     (case parse_simple (fst r) of
        None \<Rightarrow> []
      | Some (a1, body, a2) \<Rightarrow>
          map (\<lambda>m. (m, ''''))
            (if a1 then (if matches_here (snd r) body a2 s then [take (length body) s] else [])
             else all_suffix (matches_here (snd r) body a2) (length body) s))"

definition simple_hostname :: "string \<Rightarrow> string option" where
  "simple_hostname u =
     (if startsWith u ''https://'' then Some (takeWhile (\<lambda>c. c \<notin> set ''/:?#'') (drop 8 u))
      else if startsWith u ''http://'' then Some (takeWhile (\<lambda>c. c \<notin> set ''/:?#'') (drop 7 u))
      else None)"

definition sample_runtime :: "response attempt \<Rightarrow> string attempt \<Rightarrow> runtime" where
  "sample_runtime page script =
     \<lparr>re_first = simple_first, re_all = simple_all, url_hostname = simple_hostname,
      url_href = (\<lambda>rel base. None), fetch_page = (\<lambda>u t. page),
      fetch_script = (\<lambda>u. script), text_decode = (\<lambda>b. b)\<rparr>"

text \<open>The example page: a host on a prototype hosting domain, a page that mentions the
  Lucide icons and a Radix import, and response headers with or without the Wix
  confirmation header.\<close>

definition example_html :: string where
  "example_html = ''lucide @radix-ui/''"

definition example_url :: string where
  "example_url = ''https://my-site.vercel.app/''"

definition example_page :: "(string \<times> string) list \<Rightarrow> response" where
  "example_page hs =
     \<lparr>response_url = example_url, response_headers = hs, response_text = Returned example_html\<rparr>"

definition example_runtime :: "(string \<times> string) list \<Rightarrow> string attempt \<Rightarrow> runtime" where
  "example_runtime hs script = sample_runtime (Returned (example_page hs)) script"

definition wix_headers :: "(string \<times> string) list" where
  "wix_headers = [(''X-Meta-Site-Is-Wix-Site'', ''1''), (''X-Vercel-Id'', ''fra1::abc'')]"

definition vercel_headers :: "(string \<times> string) list" where
  "vercel_headers = [(''X-Vercel-Id'', ''fra1::abc'')]"


section \<open>Properties of the score aggregator\<close>

lemma weight_plain:
  "plain_key c \<Longrightarrow>
     nullish_or (get_member CONFIDENCE_WEIGHTS c) (NumVal 1) = NumVal (conf_weight c)"
  by (simp add: plain_key_def get_member_def CONFIDENCE_WEIGHTS_def nullish_or_def
      conf_weight_def)

lemma map_of_lift: "map_of (lift acc) k = map_option NumVal (map_of acc k)"
  by (induction acc) (auto simp: lift_def)

lemma update_lift: "AList.update k (NumVal r) (lift acc) = lift (AList.update k r acc)"
  by (induction acc) (auto simp: lift_def)

lemma add_signal_lift:
  assumes "plain_signal s"
  shows "add_signal (lift acc) s = lift (bump acc s)"
proof -
  from assms have pk: "category s \<notin> set OBJECT_PROTOTYPE_NAMES"
    and pc: "plain_key (confidence s)"
    by (simp_all add: plain_signal_def plain_key_def)
  have np: "category s \<noteq> ''__proto__''"
    using pk by (auto simp: OBJECT_PROTOTYPE_NAMES_def)
  have cur: "nullish_or (get_member (lift acc) (category s)) (NumVal 0)
      = NumVal (tot acc (category s))"
    using pk by (cases "map_of acc (category s)")
      (simp_all add: get_member_def map_of_lift nullish_or_def tot_def)
  show ?thesis
    by (simp add: add_signal_def Let_def weight_plain[OF pc] cur set_member_def np
        update_lift bump_def)
qed

lemma foldl_add_signal_lift:
  "\<forall>s\<in>set sigs. plain_signal s \<Longrightarrow>
     foldl add_signal (lift acc) sigs = lift (foldl bump acc sigs)"
  by (induction sigs arbitrary: acc) (simp_all add: add_signal_lift)

lemma reduce_lift:
  "foldl (\<lambda>sum v. num_plus sum (Math_min v c)) (Num a) (map snd (lift acc))
     = Num (a + sum_list (map (\<lambda>(k, r). min r c) acc))"
  by (induction acc arbitrary: a) (auto simp: lift_def)

lemma keys_bump:
  "map fst (bump acc s)
     = (if category s \<in> fst ` set acc then map fst acc else map fst acc @ [category s])"
  by (simp add: bump_def update_keys)

lemma tot_bump:
  "tot (bump acc s) k = tot acc k + (if category s = k then conf_weight (confidence s) else 0)"
  by (simp add: bump_def tot_def update_conv')

lemma keys_foldl_bump:
  "distinct (map fst acc) \<Longrightarrow>
     distinct (map fst (foldl bump acc sigs)) \<and>
     set (map fst (foldl bump acc sigs)) = set (map fst acc) \<union> category ` set sigs"
proof (induction sigs arbitrary: acc)
  case Nil
  then show ?case by simp
next
  case (Cons s sigs)
  have d: "distinct (map fst (bump acc s))"
    using Cons.prems by (auto simp: keys_bump)
  have k: "set (map fst (bump acc s)) = insert (category s) (set (map fst acc))"
    by (auto simp: keys_bump)
  from Cons.IH[OF d] k show ?case by auto
qed

lemma tot_foldl_bump: "tot (foldl bump acc sigs) k = tot acc k + category_total sigs k"
  by (induction sigs arbitrary: acc) (auto simp: tot_bump category_total_def)

lemma sum_entries:
  "distinct (map fst acc) \<Longrightarrow>
     sum_list (map (\<lambda>(k, r). f r) acc) = (\<Sum>k\<in>set (map fst acc). f (tot acc k))"
proof (induction acc)
  case Nil
  then show ?case by simp
next
  case (Cons e acc)
  obtain k r where e: "e = (k, r)" by (cases e)
  from Cons.prems e have nk: "k \<notin> fst ` set acc" and d: "distinct (map fst acc)"
    by auto
  have "(\<Sum>k'\<in>set (map fst acc). f (tot (e # acc) k'))
      = (\<Sum>k'\<in>set (map fst acc). f (tot acc k'))"
    using nk by (intro sum.cong) (auto simp: tot_def e)
  then show ?case using Cons.IH[OF d] nk by (simp add: e tot_def)
qed

lemma score_formula_set:
  assumes "\<forall>s\<in>set sigs. plain_signal s"
  shows "scoreSignals sigs
    = Num (\<Sum>c\<in>category ` set sigs. min (category_total sigs c) CATEGORY_CAP)"
proof -
  let ?acc = "foldl bump [] sigs"
  have l0: "foldl add_signal [] sigs = lift ?acc"
    using foldl_add_signal_lift[OF assms, of "[]"] by (simp add: lift_def)
  have keys: "distinct (map fst ?acc)" "set (map fst ?acc) = category ` set sigs"
    using keys_foldl_bump[of "[]" sigs] by simp_all
  have t: "tot ?acc k = category_total sigs k" for k
    by (simp add: tot_foldl_bump) (simp add: tot_def)
  show ?thesis
    unfolding scoreSignals_def Let_def l0 reduce_lift
    using sum_entries[OF keys(1), of "\<lambda>r. min r CATEGORY_CAP"] keys(2) by (simp add: t)
qed
















section \<open>Properties of the confidence label\<close>





section \<open>Dictionaries and the sort\<close>

lemma update_fresh: "k \<notin> fst ` set acc \<Longrightarrow> AList.update k v acc = acc @ [(k, v)]"
  by (induction acc) auto

lemma foldl_set_member_map:
  assumes "distinct (map fst xs)" and "''__proto__'' \<notin> fst ` set xs"
    and "fst ` set acc \<inter> fst ` set xs = {}"
  shows "foldl (\<lambda>acc (k, v). set_member acc k (f k v)) acc xs = acc @ map (\<lambda>(k, v). (k, f k v)) xs"
  using assms
proof (induction xs arbitrary: acc)
  case Nil
  then show ?case by simp
next
  case (Cons x xs)
  obtain k v where x: "x = (k, v)" by (cases x)
  from Cons.prems x have fresh: "k \<notin> fst ` set acc" and np: "k \<noteq> ''__proto__''"
    by auto
  have step: "set_member acc k (f k v) = acc @ [(k, f k v)]"
    using fresh np by (simp add: set_member_def update_fresh)
  have disj: "fst ` set (acc @ [(k, f k v)]) \<inter> fst ` set xs = {}"
    using Cons.prems x by auto
  have d: "distinct (map fst xs)" and p: "''__proto__'' \<notin> fst ` set xs"
    using Cons.prems by auto
  show ?case
    using Cons.IH[OF d p disj] by (simp add: x step)
qed

lemma Array_sort_Cons: "Array_sort cmp (x # xs) = insert_sorted cmp x (Array_sort cmp xs)"
  by (simp add: Array_sort_def)

lemma Array_sort_Nil: "Array_sort cmp [] = []"
  by (simp add: Array_sort_def)

lemma Array_sort_empty_iff: "Array_sort cmp xs = [] \<longleftrightarrow> xs = []"
proof (cases xs)
  case Nil then show ?thesis by (simp add: Array_sort_Nil)
next
  case (Cons x xs')
  have "insert_sorted cmp x ys \<noteq> []" for ys by (cases ys) auto
  then show ?thesis by (simp add: Cons Array_sort_Cons)
qed

lemma hd_insert_sorted:
  "hd (insert_sorted cmp x ys) = (case ys of [] \<Rightarrow> x | y # zs \<Rightarrow> if positive (cmp x y) then y else x)"
  by (cases ys) auto

lemma hd_sort_numeric:
  "tbl \<noteq> [] \<Longrightarrow>
     hd (Array_sort (\<lambda>a b. num_minus (snd b) (snd a)) (numeric tbl)) = (fst (first_max tbl), Num (snd (first_max tbl)))"
proof (induction tbl rule: first_max.induct)
  case 1 then show ?case by simp
next
  case (2 e)
  then show ?case by (cases e) (simp add: numeric_def Array_sort_def)
next
  case (3 e e' es)
  let ?cmp = "\<lambda>a b. num_minus (snd b) (snd a)"
  let ?rest = "Array_sort ?cmp (numeric (e' # es))"
  have ne: "?rest \<noteq> []" by (simp add: Array_sort_empty_iff numeric_def)
  have ih: "hd ?rest = (fst (first_max (e' # es)), Num (snd (first_max (e' # es))))"
    using 3 by simp
  obtain y zs where yz: "?rest = y # zs" using ne by (cases ?rest) auto
  with ih have y: "y = (fst (first_max (e' # es)), Num (snd (first_max (e' # es))))" by simp
  obtain p v where e: "e = (p, v)" by (cases e)
  have "numeric (e # e' # es) = (p, Num v) # numeric (e' # es)"
    by (simp add: numeric_def e)
  then have "hd (Array_sort ?cmp (numeric (e # e' # es)))
      = (if positive (?cmp (p, Num v) y) then y else (p, Num v))"
    by (simp add: Array_sort_Cons hd_insert_sorted yz)
  then show ?case by (simp add: y e)
qed

lemma bestEntry_numeric:
  "bestEntry (numeric tbl) = (fst (first_max tbl), Num (snd (first_max tbl)))"
proof (cases tbl)
  case Nil
  then show ?thesis by (simp add: bestEntry_def numeric_def Array_sort_def)
next
  case (Cons e es)
  let ?sorted = "Array_sort (\<lambda>a b. num_minus (snd b) (snd a)) (numeric tbl)"
  have "?sorted \<noteq> []" by (simp add: Array_sort_empty_iff numeric_def Cons)
  then obtain y zs where yz: "?sorted = y # zs" by (cases ?sorted) auto
  have "bestEntry (numeric tbl) = hd ?sorted" by (simp add: bestEntry_def yz)
  also have "\<dots> = (fst (first_max tbl), Num (snd (first_max tbl)))"
    by (rule hd_sort_numeric) (simp add: Cons)
  finally show ?thesis .
qed

lemma first_max_decomp:
  "tbl \<noteq> [] \<Longrightarrow> \<exists>pre post. tbl = pre @ first_max tbl # post
     \<and> (\<forall>e\<in>set pre. snd e < snd (first_max tbl)) \<and> (\<forall>e\<in>set post. snd e \<le> snd (first_max tbl))"
proof (induction tbl rule: first_max.induct)
  case 1 then show ?case by simp
next
  case (2 e)
  have "[e] = [] @ first_max [e] # []" by simp
  then show ?case by fastforce
next
  case (3 e e' es)
  let ?m = "first_max (e' # es)"
  from 3 obtain pre post where d: "e' # es = pre @ ?m # post"
    "\<forall>x\<in>set pre. snd x < snd ?m" "\<forall>x\<in>set post. snd x \<le> snd ?m" by auto
  show ?case
  proof (cases "snd ?m > snd e")
    case True
    then have fm: "first_max (e # e' # es) = ?m" by simp
    have "e # e' # es = (e # pre) @ ?m # post" using d(1) by simp
    moreover have "\<forall>x\<in>set (e # pre). snd x < snd ?m" using d(2) True by simp
    ultimately show ?thesis using d(3) unfolding fm by blast
  next
    case False
    then have fm: "first_max (e # e' # es) = e" by simp
    have le: "\<forall>x\<in>set (e' # es). snd x \<le> snd e"
    proof
      fix x assume "x \<in> set (e' # es)"
      then have "x \<in> set pre \<or> x = ?m \<or> x \<in> set post" using d(1)
        by (metis Un_iff insert_iff list.simps(15) set_append)
      then have "snd x \<le> snd ?m" using d(2,3) by auto
      with False show "snd x \<le> snd e" by simp
    qed
    have "e # e' # es = [] @ e # (e' # es)" by simp
    then show ?thesis unfolding fm using le by (metis empty_iff empty_set)
  qed
qed


section \<open>What the platform matcher returns\<close>

lemma tier_plain: "declared_tier (pat, conf, desc) \<Longrightarrow> plain_key conf"
  by (auto simp: declared_tier_def plain_key_def OBJECT_PROTOTYPE_NAMES_def)

lemma tiers_group:
  assumes "tiers_declared fp" and "Some ps \<in> set (fp_groups fp)" and "(pat, conf, desc) \<in> set ps"
  shows "plain_key conf"
proof -
  from assms(1,2) have "list_all declared_tier ps"
    unfolding tiers_declared_def list_all_iff by fastforce
  with assms(3) have "declared_tier (pat, conf, desc)"
    unfolding list_all_iff by blast
  then show ?thesis by (rule tier_plain)
qed

lemma fp_field_group: "fp_field cat fp = Some ps \<Longrightarrow> Some ps \<in> set (fp_groups fp)"
  unfolding fp_field_def fp_groups_def by (simp split: if_splits)

lemma matchAll_members:
  assumes "s \<in> set (matchAll E html ps cat)"
  shows "category s = cat \<and> length (matchedValue s) \<le> 120
    \<and> (\<exists>pat desc. (pat, confidence s, desc) \<in> set ps)"
proof -
  from assms obtain pat conf desc m0 where
    e: "(pat, conf, desc) \<in> set ps"
    and s: "s = \<lparr>category = cat, description = desc, confidence = conf,
             matchedValue = take 120 m0\<rparr>"
    by (auto simp: matchAll_def split: option.splits)
  show ?thesis unfolding s using e by auto
qed

lemma find_SomeD: "List.find P xs = Some x \<Longrightarrow> x \<in> set xs \<and> P x"
  by (induction xs) (auto split: if_splits)

lemma tagSignal_members:
  assumes "s \<in> set (tagSignal E ps cat src)"
  shows "category s = cat \<and> length (matchedValue s) \<le> 120
    \<and> (\<exists>pat desc. (pat, confidence s, desc) \<in> set ps)"
proof (cases "List.find (\<lambda>(pat, conf, desc). RegExp_test E (pat, ''i'') src) ps")
  case None
  with assms show ?thesis by (simp add: tagSignal_def)
next
  case (Some e)
  obtain pat conf desc where e: "e = (pat, conf, desc)" by (cases e)
  from find_SomeD[OF Some] have "(pat, conf, desc) \<in> set ps" by (simp add: e)
  moreover from assms Some e have "s = \<lparr>category = cat, description = desc, confidence = conf,
            matchedValue = take 120 src\<rparr>" by (simp add: tagSignal_def)
  ultimately show ?thesis by auto
qed

lemma matchTagSrcs_members:
  assumes "s \<in> set (matchTagSrcs E html tp ps cat)"
  shows "category s = cat \<and> length (matchedValue s) \<le> 120
    \<and> (\<exists>pat desc. (pat, confidence s, desc) \<in> set ps)"
proof -
  from assms obtain src where "s \<in> set (tagSignal E ps cat src)"
    by (auto simp: matchTagSrcs_def)
  then show ?thesis by (rule tagSignal_members)
qed

lemma hostnameSignals_members:
  assumes "s \<in> set (hostnameSignals E fp h)"
  shows "category s = ''hostname'' \<and> matchedValue s = h
    \<and> (\<exists>ps pat desc. fp_hostname fp = Some ps \<and> (pat, confidence s, desc) \<in> set ps)"
proof (cases "fp_hostname fp")
  case None
  with assms show ?thesis by (simp add: hostnameSignals_def)
next
  case (Some ps)
  with assms obtain pat conf desc where
    "(pat, conf, desc) \<in> set ps"
    "s = \<lparr>category = ''hostname'', description = desc, confidence = conf, matchedValue = h\<rparr>"
    by (auto simp: hostnameSignals_def split: if_splits)
  with Some show ?thesis by auto
qed

lemma serverHeaderSignals_members:
  assumes "s \<in> set (serverHeaderSignals E fp headers)"
  shows "category s = ''http_header'' \<and> length (matchedValue s) \<le> 60
    \<and> (\<exists>ps pat desc. fp_http_header fp = Some ps \<and> (pat, confidence s, desc) \<in> set ps)"
proof (cases "fp_http_header fp")
  case None
  with assms show ?thesis by (simp add: serverHeaderSignals_def)
next
  case (Some ps)
  with assms obtain pat conf desc where
    "(pat, conf, desc) \<in> set ps"
    "s = \<lparr>category = ''http_header'',
           description = desc @ '' [server: '' @ take 60 (nullish_or (map_of headers ''server'') '''') @ '']'',
           confidence = conf, matchedValue = take 60 (nullish_or (map_of headers ''server'') '''')\<rparr>"
    by (auto simp: serverHeaderSignals_def Let_def split: if_splits)
  with Some show ?thesis by auto
qed

lemma wixHeaderSignals_members:
  assumes "s \<in> set (wixHeaderSignals E headers)"
  shows "category s = ''http_header'' \<and> confidence s = ''high''
    \<and> (startsWith (description s) ''Wix Pepyaka server'' \<or> matchedValue s = ''1'')"
  using assms by (auto simp: wixHeaderSignals_def Let_def startsWith_def split: if_splits)

lemma boltHeaderSignals_members:
  assumes "s \<in> set (boltHeaderSignals headers)"
  shows "category s = ''http_header'' \<and> confidence s = ''high'' \<and> length (matchedValue s) \<le> 60"
  using assms by (auto simp: boltHeaderSignals_def Let_def split: if_splits)

lemma htmlPatternSignals_members:
  assumes "s \<in> set (htmlPatternSignals E fp html)"
  shows "category s \<in> set htmlCategories \<and> length (matchedValue s) \<le> 120
    \<and> (\<exists>ps pat desc. Some ps \<in> set (fp_groups fp) \<and> (pat, confidence s, desc) \<in> set ps)"
proof -
  from assms obtain cat where cat: "cat \<in> set htmlCategories"
    and c: "s \<in> set (case fp_field cat fp of None \<Rightarrow> [] | Some patterns \<Rightarrow> matchAll E html patterns cat)"
    by (auto simp: htmlPatternSignals_def)
  then obtain ps where ps: "fp_field cat fp = Some ps" and s: "s \<in> set (matchAll E html ps cat)"
    by (cases "fp_field cat fp") auto
  from matchAll_members[OF s] fp_field_group[OF ps] cat show ?thesis by blast
qed

lemma cdnUrlSignals_members:
  assumes "s \<in> set (cdnUrlSignals E fp html)"
  shows "category s = ''cdn_url'' \<and> length (matchedValue s) \<le> 120
    \<and> (\<exists>ps pat desc. Some ps \<in> set (fp_groups fp) \<and> (pat, confidence s, desc) \<in> set ps)"
proof -
  from assms obtain tp ps where g: "Some ps \<in> set (fp_groups fp)"
    and s: "s \<in> set (matchTagSrcs E html tp ps ''cdn_url'')"
    by (auto simp: cdnUrlSignals_def fp_groups_def split: option.splits)
  from matchTagSrcs_members[OF s] g show ?thesis by blast
qed

lemma detectPlatform_cases:
  assumes "s \<in> set (detectPlatform E name fp html headers u)"
  shows "s \<in> set (hostnameSignals E fp (extractHostname E u))
    \<or> s \<in> set (serverHeaderSignals E fp headers)
    \<or> s \<in> set (wixHeaderSignals E headers)
    \<or> s \<in> set (boltHeaderSignals headers)
    \<or> s \<in> set (htmlPatternSignals E fp html)
    \<or> s \<in> set (cdnUrlSignals E fp html)"
  using assms by (auto simp: detectPlatform_def Let_def split: if_splits)

lemma plain_literals:
  "plain_key ''hostname''" "plain_key ''http_header''" "plain_key ''cdn_url''" "plain_key ''high''"
  "c \<in> set htmlCategories \<Longrightarrow> plain_key c"
  by (auto simp: plain_key_def OBJECT_PROTOTYPE_NAMES_def htmlCategories_def)

lemma detectPlatform_plain:
  assumes td: "tiers_declared fp" and s: "s \<in> set (detectPlatform E name fp html headers u)"
  shows "plain_signal s"
proof -
  have hn: "Some ps \<in> set (fp_groups fp)" if "fp_hostname fp = Some ps" for ps
    using that by (simp add: fp_groups_def)
  have hh: "Some ps \<in> set (fp_groups fp)" if "fp_http_header fp = Some ps" for ps
    using that by (simp add: fp_groups_def)
  from detectPlatform_cases[OF s] show ?thesis
  proof (elim disjE)
    assume "s \<in> set (hostnameSignals E fp (extractHostname E u))"
    from hostnameSignals_members[OF this] hn tiers_group[OF td] show ?thesis
      unfolding plain_signal_def using plain_literals(1) by metis
  next
    assume "s \<in> set (serverHeaderSignals E fp headers)"
    from serverHeaderSignals_members[OF this] hh tiers_group[OF td] show ?thesis
      unfolding plain_signal_def using plain_literals(2) by metis
  next
    assume "s \<in> set (wixHeaderSignals E headers)"
    from wixHeaderSignals_members[OF this] show ?thesis
      unfolding plain_signal_def using plain_literals(2,4) by metis
  next
    assume "s \<in> set (boltHeaderSignals headers)"
    from boltHeaderSignals_members[OF this] show ?thesis
      unfolding plain_signal_def using plain_literals(2,4) by metis
  next
    assume "s \<in> set (htmlPatternSignals E fp html)"
    from htmlPatternSignals_members[OF this] tiers_group[OF td] show ?thesis
      unfolding plain_signal_def using plain_literals(5) by metis
  next
    assume "s \<in> set (cdnUrlSignals E fp html)"
    from cdnUrlSignals_members[OF this] tiers_group[OF td] show ?thesis
      unfolding plain_signal_def using plain_literals(3) by metis
  qed
qed



section \<open>What does not read the adjunct script\<close>













section \<open>The fingerprint table\<close>

lemma FINGERPRINTS_names:
  "map fst FINGERPRINTS = [''Framer'', ''Webflow'', ''Bolt'', ''v0 (Vercel)'', ''Wix'', ''Lovable'',
     ''Squarespace'', ''GitHub Pages'', ''Cursor AI'']"
  by (simp add: FINGERPRINTS_def)

lemma FINGERPRINTS_distinct: "distinct (map fst FINGERPRINTS)"
  unfolding FINGERPRINTS_names by simp

lemma FINGERPRINTS_no_proto: "''__proto__'' \<notin> fst ` set FINGERPRINTS"
proof -
  have "''__proto__'' \<notin> set (map fst FINGERPRINTS)" unfolding FINGERPRINTS_names by simp
  then show ?thesis by simp
qed

lemma tiers_Framer: "tiers_declared Framer_fingerprint"
  by (simp add: tiers_declared_def fp_groups_def declared_tier_def Framer_fingerprint_def no_patterns_def)

lemma tiers_Webflow: "tiers_declared Webflow_fingerprint"
  by (simp add: tiers_declared_def fp_groups_def declared_tier_def Webflow_fingerprint_def no_patterns_def)

lemma tiers_Bolt: "tiers_declared Bolt_fingerprint"
  by (simp add: tiers_declared_def fp_groups_def declared_tier_def Bolt_fingerprint_def no_patterns_def)

lemma tiers_v0: "tiers_declared v0_Vercel_fingerprint"
  by (simp add: tiers_declared_def fp_groups_def declared_tier_def v0_Vercel_fingerprint_def no_patterns_def)

lemma tiers_Wix: "tiers_declared Wix_fingerprint"
  by (simp add: tiers_declared_def fp_groups_def declared_tier_def Wix_fingerprint_def no_patterns_def)

lemma tiers_Lovable: "tiers_declared Lovable_fingerprint"
  by (simp add: tiers_declared_def fp_groups_def declared_tier_def Lovable_fingerprint_def no_patterns_def)

lemma tiers_Squarespace: "tiers_declared Squarespace_fingerprint"
  by (simp add: tiers_declared_def fp_groups_def declared_tier_def Squarespace_fingerprint_def no_patterns_def)

lemma tiers_GitHub: "tiers_declared GitHub_Pages_fingerprint"
  by (simp add: tiers_declared_def fp_groups_def declared_tier_def GitHub_Pages_fingerprint_def no_patterns_def)

lemma tiers_Cursor: "tiers_declared Cursor_AI_fingerprint"
  by (simp add: tiers_declared_def fp_groups_def declared_tier_def Cursor_AI_fingerprint_def no_patterns_def)

lemma FINGERPRINTS_tiers: "\<forall>(name, fp)\<in>set FINGERPRINTS. tiers_declared fp"
  by (simp add: FINGERPRINTS_def tiers_Framer tiers_Webflow tiers_Bolt tiers_v0 tiers_Wix
      tiers_Lovable tiers_Squarespace tiers_GitHub tiers_Cursor)

lemma scoreSignals_finite:
  assumes "\<forall>s\<in>set sigs. plain_signal s"
  shows "\<exists>v. scoreSignals sigs = Num v"
  using score_formula_set[OF assms] by blast

lemma platform_scores_numeric:
  "map (\<lambda>(name, fp). (name, scoreSignals (detectPlatform E name fp html headers u))) FINGERPRINTS
     = numeric (map (\<lambda>(name, fp). (name, score_of (scoreSignals (detectPlatform E name fp html headers u)))) FINGERPRINTS)"
proof -
  have "scoreSignals (detectPlatform E name fp html headers u)
      = Num (score_of (scoreSignals (detectPlatform E name fp html headers u)))"
    if "(name, fp) \<in> set FINGERPRINTS" for name fp
  proof -
    from that FINGERPRINTS_tiers have "tiers_declared fp" by blast
    then have "\<forall>s\<in>set (detectPlatform E name fp html headers u). plain_signal s"
      using detectPlatform_plain by blast
    from scoreSignals_finite[OF this] show ?thesis by (auto simp: score_of_def)
  qed
  then show ?thesis by (auto simp: numeric_def)
qed

lemma allScores_eq:
  "foldl (\<lambda>acc (name, fp). set_member acc name (f name fp)) [] FINGERPRINTS
     = map (\<lambda>(name, fp). (name, f name fp)) FINGERPRINTS"
  using foldl_set_member_map[OF FINGERPRINTS_distinct FINGERPRINTS_no_proto, of "[]" f] by simp

lemma detectUrl_error_iff:
  assumes "primaryFetch E (normalizeUrl rawUrl) t = (html, headers, fu, err)"
  shows "error (detectUrl E rawUrl t) = None \<longleftrightarrow> \<not> truthy err"
  using assms by (auto simp: detectUrl_def Let_def truthy_def split: option.splits if_splits)


section \<open>What the AI heuristic extractor returns\<close>

lemma generatorMeta_category:
  "s \<in> set (generatorMetaSignals E pats html) \<Longrightarrow> category s = ''ai_generator_meta'' \<and> length (matchedValue s) \<le> 120"
  by (induction pats) (auto split: option.splits)

lemma ai_parts_not_hosting:
  "s \<in> set (overCommenterSignals a) \<Longrightarrow> category s = ''over_commenter''"
  "s \<in> set (shadcnSignals b) \<Longrightarrow> category s = ''shadcn_ui''"
  "s \<in> set (tailwindSignals c) \<Longrightarrow> category s = ''tailwind_stack''"
  "s \<in> set (viteSignals d r) \<Longrightarrow> category s = ''vite_build''"
  "s \<in> set (lucideSignals l) \<Longrightarrow> category s = ''lucide_icons''"
  "s \<in> set (interFontSignals i) \<Longrightarrow> category s = ''inter_font''"
  "s \<in> set (placeholderSignals p) \<Longrightarrow> category s = ''placeholder_links''"
  "s \<in> set (namingSignals n) \<Longrightarrow> category s = ''generic_naming''"
  "s \<in> set (prototypeHostingSignals ph h) \<Longrightarrow> category s = ''prototype_hosting''"
  "s \<in> set (hostingHeaderSignals hs ph) \<Longrightarrow> category s = ''hosting_platform''"
  by (auto simp: overCommenterSignals_def shadcnSignals_def tailwindSignals_def viteSignals_def
      lucideSignals_def interFontSignals_def placeholderSignals_def namingSignals_def
      prototypeHostingSignals_def hostingHeaderSignals_def split: if_splits)

lemma hosting_category_iff:
  "s \<in> set (detectAiHeuristics E html headers u) \<Longrightarrow> category s = ''hosting_platform'' \<Longrightarrow>
     s \<in> set (hostingHeaderSignals headers (isPrototypeHost E (extractHostname E u)))"
  by (auto simp: detectAiHeuristics_def Let_def dest: ai_parts_not_hosting generatorMeta_category)

lemma hosting_subset:
  "set (hostingHeaderSignals headers (isPrototypeHost E (extractHostname E u))) \<subseteq> set (detectAiHeuristics E html headers u)"
  by (auto simp: detectAiHeuristics_def Let_def)

lemma prototype_subset:
  "set (prototypeHostingSignals (isPrototypeHost E (extractHostname E u)) (extractHostname E u)) \<subseteq> set (detectAiHeuristics E html headers u)"
  by (auto simp: detectAiHeuristics_def Let_def)











section \<open>The worked examples\<close>

lemma ex_hostname: "extractHostname (sample_runtime page script) example_url = ''my-site.vercel.app''"
  by code_simp

lemma ex_host_Framer: "hostnameSignals (sample_runtime page script) Framer_fingerprint ''my-site.vercel.app'' = []"
  by code_simp

lemma ex_html_Framer: "htmlPatternSignals (sample_runtime page script) Framer_fingerprint example_html = []"
  by code_simp

lemma ex_cdn_Framer: "cdnUrlSignals (sample_runtime page script) Framer_fingerprint example_html = []"
  by code_simp

lemma ex_server_Framer: "map_of headers ''server'' = None \<Longrightarrow> serverHeaderSignals (sample_runtime page script) Framer_fingerprint headers = []"
  by (simp add: serverHeaderSignals_def Framer_fingerprint_def no_patterns_def nullish_or_def RegExp_test_def sample_runtime_def simple_first_def parse_simple_def meta_chars_def matches_here_def fold_case_def toLowerCase_def lower_char_def)

lemma ex_detect_Framer:
  assumes "map_of headers ''server'' = None"
  shows "detectPlatform (sample_runtime page script) name Framer_fingerprint example_html headers example_url
    = (if name = ''Wix'' then wixHeaderSignals (sample_runtime page script) headers else [])
      @ (if name = ''Bolt'' then boltHeaderSignals headers else [])"
  by (simp add: detectPlatform_def ex_hostname ex_host_Framer ex_html_Framer ex_cdn_Framer ex_server_Framer[OF assms])

lemma ex_host_Webflow: "hostnameSignals (sample_runtime page script) Webflow_fingerprint ''my-site.vercel.app'' = []"
  by code_simp

lemma ex_html_Webflow: "htmlPatternSignals (sample_runtime page script) Webflow_fingerprint example_html = []"
  by code_simp

lemma ex_cdn_Webflow: "cdnUrlSignals (sample_runtime page script) Webflow_fingerprint example_html = []"
  by code_simp

lemma ex_server_Webflow: "map_of headers ''server'' = None \<Longrightarrow> serverHeaderSignals (sample_runtime page script) Webflow_fingerprint headers = []"
  by (simp add: serverHeaderSignals_def Webflow_fingerprint_def no_patterns_def nullish_or_def RegExp_test_def sample_runtime_def simple_first_def parse_simple_def meta_chars_def matches_here_def fold_case_def toLowerCase_def lower_char_def)

lemma ex_detect_Webflow:
  assumes "map_of headers ''server'' = None"
  shows "detectPlatform (sample_runtime page script) name Webflow_fingerprint example_html headers example_url
    = (if name = ''Wix'' then wixHeaderSignals (sample_runtime page script) headers else [])
      @ (if name = ''Bolt'' then boltHeaderSignals headers else [])"
  by (simp add: detectPlatform_def ex_hostname ex_host_Webflow ex_html_Webflow ex_cdn_Webflow ex_server_Webflow[OF assms])

lemma ex_host_Bolt: "hostnameSignals (sample_runtime page script) Bolt_fingerprint ''my-site.vercel.app'' = []"
  by code_simp

lemma ex_html_Bolt: "htmlPatternSignals (sample_runtime page script) Bolt_fingerprint example_html = []"
  by code_simp

lemma ex_cdn_Bolt: "cdnUrlSignals (sample_runtime page script) Bolt_fingerprint example_html = []"
  by code_simp

lemma ex_server_Bolt: "map_of headers ''server'' = None \<Longrightarrow> serverHeaderSignals (sample_runtime page script) Bolt_fingerprint headers = []"
  by (simp add: serverHeaderSignals_def Bolt_fingerprint_def no_patterns_def nullish_or_def RegExp_test_def sample_runtime_def simple_first_def parse_simple_def meta_chars_def matches_here_def fold_case_def toLowerCase_def lower_char_def)

lemma ex_detect_Bolt:
  assumes "map_of headers ''server'' = None"
  shows "detectPlatform (sample_runtime page script) name Bolt_fingerprint example_html headers example_url
    = (if name = ''Wix'' then wixHeaderSignals (sample_runtime page script) headers else [])
      @ (if name = ''Bolt'' then boltHeaderSignals headers else [])"
  by (simp add: detectPlatform_def ex_hostname ex_host_Bolt ex_html_Bolt ex_cdn_Bolt ex_server_Bolt[OF assms])

lemma ex_host_v0_Vercel: "hostnameSignals (sample_runtime page script) v0_Vercel_fingerprint ''my-site.vercel.app'' = []"
  by code_simp

lemma ex_html_v0_Vercel: "htmlPatternSignals (sample_runtime page script) v0_Vercel_fingerprint example_html = []"
  by code_simp

lemma ex_cdn_v0_Vercel: "cdnUrlSignals (sample_runtime page script) v0_Vercel_fingerprint example_html = []"
  by code_simp

lemma ex_server_v0_Vercel: "map_of headers ''server'' = None \<Longrightarrow> serverHeaderSignals (sample_runtime page script) v0_Vercel_fingerprint headers = []"
  by (simp add: serverHeaderSignals_def v0_Vercel_fingerprint_def no_patterns_def nullish_or_def RegExp_test_def sample_runtime_def simple_first_def parse_simple_def meta_chars_def matches_here_def fold_case_def toLowerCase_def lower_char_def)

lemma ex_detect_v0_Vercel:
  assumes "map_of headers ''server'' = None"
  shows "detectPlatform (sample_runtime page script) name v0_Vercel_fingerprint example_html headers example_url
    = (if name = ''Wix'' then wixHeaderSignals (sample_runtime page script) headers else [])
      @ (if name = ''Bolt'' then boltHeaderSignals headers else [])"
  by (simp add: detectPlatform_def ex_hostname ex_host_v0_Vercel ex_html_v0_Vercel ex_cdn_v0_Vercel ex_server_v0_Vercel[OF assms])

lemma ex_host_Wix: "hostnameSignals (sample_runtime page script) Wix_fingerprint ''my-site.vercel.app'' = []"
  by code_simp

lemma ex_html_Wix: "htmlPatternSignals (sample_runtime page script) Wix_fingerprint example_html = []"
  by code_simp

lemma ex_cdn_Wix: "cdnUrlSignals (sample_runtime page script) Wix_fingerprint example_html = []"
  by code_simp

lemma ex_server_Wix: "map_of headers ''server'' = None \<Longrightarrow> serverHeaderSignals (sample_runtime page script) Wix_fingerprint headers = []"
  by (simp add: serverHeaderSignals_def Wix_fingerprint_def no_patterns_def nullish_or_def RegExp_test_def sample_runtime_def simple_first_def parse_simple_def meta_chars_def matches_here_def fold_case_def toLowerCase_def lower_char_def)

lemma ex_detect_Wix:
  assumes "map_of headers ''server'' = None"
  shows "detectPlatform (sample_runtime page script) name Wix_fingerprint example_html headers example_url
    = (if name = ''Wix'' then wixHeaderSignals (sample_runtime page script) headers else [])
      @ (if name = ''Bolt'' then boltHeaderSignals headers else [])"
  by (simp add: detectPlatform_def ex_hostname ex_host_Wix ex_html_Wix ex_cdn_Wix ex_server_Wix[OF assms])

lemma ex_host_Lovable: "hostnameSignals (sample_runtime page script) Lovable_fingerprint ''my-site.vercel.app'' = []"
  by code_simp

lemma ex_html_Lovable: "htmlPatternSignals (sample_runtime page script) Lovable_fingerprint example_html = []"
  by code_simp

lemma ex_cdn_Lovable: "cdnUrlSignals (sample_runtime page script) Lovable_fingerprint example_html = []"
  by code_simp

lemma ex_server_Lovable: "map_of headers ''server'' = None \<Longrightarrow> serverHeaderSignals (sample_runtime page script) Lovable_fingerprint headers = []"
  by (simp add: serverHeaderSignals_def Lovable_fingerprint_def no_patterns_def nullish_or_def RegExp_test_def sample_runtime_def simple_first_def parse_simple_def meta_chars_def matches_here_def fold_case_def toLowerCase_def lower_char_def)

lemma ex_detect_Lovable:
  assumes "map_of headers ''server'' = None"
  shows "detectPlatform (sample_runtime page script) name Lovable_fingerprint example_html headers example_url
    = (if name = ''Wix'' then wixHeaderSignals (sample_runtime page script) headers else [])
      @ (if name = ''Bolt'' then boltHeaderSignals headers else [])"
  by (simp add: detectPlatform_def ex_hostname ex_host_Lovable ex_html_Lovable ex_cdn_Lovable ex_server_Lovable[OF assms])

lemma ex_host_Squarespace: "hostnameSignals (sample_runtime page script) Squarespace_fingerprint ''my-site.vercel.app'' = []"
  by code_simp

lemma ex_html_Squarespace: "htmlPatternSignals (sample_runtime page script) Squarespace_fingerprint example_html = []"
  by code_simp

lemma ex_cdn_Squarespace: "cdnUrlSignals (sample_runtime page script) Squarespace_fingerprint example_html = []"
  by code_simp

lemma ex_server_Squarespace: "map_of headers ''server'' = None \<Longrightarrow> serverHeaderSignals (sample_runtime page script) Squarespace_fingerprint headers = []"
  by (simp add: serverHeaderSignals_def Squarespace_fingerprint_def no_patterns_def nullish_or_def RegExp_test_def sample_runtime_def simple_first_def parse_simple_def meta_chars_def matches_here_def fold_case_def toLowerCase_def lower_char_def)

lemma ex_detect_Squarespace:
  assumes "map_of headers ''server'' = None"
  shows "detectPlatform (sample_runtime page script) name Squarespace_fingerprint example_html headers example_url
    = (if name = ''Wix'' then wixHeaderSignals (sample_runtime page script) headers else [])
      @ (if name = ''Bolt'' then boltHeaderSignals headers else [])"
  by (simp add: detectPlatform_def ex_hostname ex_host_Squarespace ex_html_Squarespace ex_cdn_Squarespace ex_server_Squarespace[OF assms])

lemma ex_host_GitHub_Pages: "hostnameSignals (sample_runtime page script) GitHub_Pages_fingerprint ''my-site.vercel.app'' = []"
  by code_simp

lemma ex_html_GitHub_Pages: "htmlPatternSignals (sample_runtime page script) GitHub_Pages_fingerprint example_html = []"
  by code_simp

lemma ex_cdn_GitHub_Pages: "cdnUrlSignals (sample_runtime page script) GitHub_Pages_fingerprint example_html = []"
  by code_simp

lemma ex_server_GitHub_Pages: "map_of headers ''server'' = None \<Longrightarrow> serverHeaderSignals (sample_runtime page script) GitHub_Pages_fingerprint headers = []"
  by (simp add: serverHeaderSignals_def GitHub_Pages_fingerprint_def no_patterns_def nullish_or_def RegExp_test_def sample_runtime_def simple_first_def parse_simple_def meta_chars_def matches_here_def fold_case_def toLowerCase_def lower_char_def)

lemma ex_detect_GitHub_Pages:
  assumes "map_of headers ''server'' = None"
  shows "detectPlatform (sample_runtime page script) name GitHub_Pages_fingerprint example_html headers example_url
    = (if name = ''Wix'' then wixHeaderSignals (sample_runtime page script) headers else [])
      @ (if name = ''Bolt'' then boltHeaderSignals headers else [])"
  by (simp add: detectPlatform_def ex_hostname ex_host_GitHub_Pages ex_html_GitHub_Pages ex_cdn_GitHub_Pages ex_server_GitHub_Pages[OF assms])

lemma ex_host_Cursor_AI: "hostnameSignals (sample_runtime page script) Cursor_AI_fingerprint ''my-site.vercel.app'' = []"
  by code_simp

lemma ex_html_Cursor_AI: "htmlPatternSignals (sample_runtime page script) Cursor_AI_fingerprint example_html = []"
  by code_simp

lemma ex_cdn_Cursor_AI: "cdnUrlSignals (sample_runtime page script) Cursor_AI_fingerprint example_html = []"
  by code_simp

lemma ex_server_Cursor_AI: "map_of headers ''server'' = None \<Longrightarrow> serverHeaderSignals (sample_runtime page script) Cursor_AI_fingerprint headers = []"
  by (simp add: serverHeaderSignals_def Cursor_AI_fingerprint_def no_patterns_def nullish_or_def RegExp_test_def sample_runtime_def simple_first_def parse_simple_def meta_chars_def matches_here_def fold_case_def toLowerCase_def lower_char_def)

lemma ex_detect_Cursor_AI:
  assumes "map_of headers ''server'' = None"
  shows "detectPlatform (sample_runtime page script) name Cursor_AI_fingerprint example_html headers example_url
    = (if name = ''Wix'' then wixHeaderSignals (sample_runtime page script) headers else [])
      @ (if name = ''Bolt'' then boltHeaderSignals headers else [])"
  by (simp add: detectPlatform_def ex_hostname ex_host_Cursor_AI ex_html_Cursor_AI ex_cdn_Cursor_AI ex_server_Cursor_AI[OF assms])

lemma ex_ai_wix:
  "detectAiHeuristics (sample_runtime page script) example_html
      [(''x-meta-site-is-wix-site'', ''1''), (''x-vercel-id'', ''fra1::abc'')] example_url
     = shadcnSignals 1 @ lucideSignals True @ prototypeHostingSignals True ''my-site.vercel.app''"
  by code_simp

lemma ex_ai_vercel:
  "detectAiHeuristics (sample_runtime page script) example_html
      [(''x-vercel-id'', ''fra1::abc'')] example_url
     = shadcnSignals 1 @ lucideSignals True @ prototypeHostingSignals True ''my-site.vercel.app''"
  by code_simp

lemma ex_fetch_wix:
  "primaryFetch (example_runtime wix_headers script) (normalizeUrl ''my-site.vercel.app'') 15000
     = (example_html, [(''x-meta-site-is-wix-site'', ''1''), (''x-vercel-id'', ''fra1::abc'')],
        example_url, None)"
  by code_simp

lemma ex_fetch_vercel:
  "primaryFetch (example_runtime vercel_headers script) (normalizeUrl ''my-site.vercel.app'') 15000
     = (example_html, [(''x-vercel-id'', ''fra1::abc'')], example_url, None)"
  by code_simp

lemma ex_scores:
  assumes "map_of headers ''server'' = None" and "map_of headers ''server-version'' = None"
  shows "map (\<lambda>(name, fp). (name, scoreSignals
            (detectPlatform (sample_runtime page script) name fp example_html headers example_url)))
          FINGERPRINTS
     = [(''Framer'', Num 0), (''Webflow'', Num 0), (''Bolt'', Num 0), (''v0 (Vercel)'', Num 0),
        (''Wix'', scoreSignals (wixHeaderSignals (sample_runtime page script) headers)),
        (''Lovable'', Num 0), (''Squarespace'', Num 0), (''GitHub Pages'', Num 0),
        (''Cursor AI'', Num 0)]"
proof -
  have e: "scoreSignals [] = Num 0" by (simp add: scoreSignals_def)
  have b: "boltHeaderSignals headers = []"
    using assms(2) by (simp add: boltHeaderSignals_def nullish_or_def)
  show ?thesis
    by (simp add: FINGERPRINTS_def ex_detect_Framer[OF assms(1)] ex_detect_Webflow[OF assms(1)]
        ex_detect_Bolt[OF assms(1)] ex_detect_v0_Vercel[OF assms(1)] ex_detect_Wix[OF assms(1)]
        ex_detect_Lovable[OF assms(1)] ex_detect_Squarespace[OF assms(1)]
        ex_detect_GitHub_Pages[OF assms(1)] ex_detect_Cursor_AI[OF assms(1)] e b)
qed

lemma ex_wix_signals:
  "wixHeaderSignals (sample_runtime page script)
      [(''x-meta-site-is-wix-site'', ''1''), (''x-vercel-id'', ''fra1::abc'')]
     = [\<lparr>category = ''http_header'', description = ''Wix site confirmation header'',
          confidence = ''high'', matchedValue = ''1''\<rparr>]"
  by code_simp

lemma ex_no_wix_signals:
  "wixHeaderSignals (sample_runtime page script) [(''x-vercel-id'', ''fra1::abc'')] = []"
  by code_simp

lemma ex_wix_score:
  "scoreSignals [\<lparr>category = ''http_header'', description = ''Wix site confirmation header'',
          confidence = ''high'', matchedValue = ''1''\<rparr>] = Num 10"
  by (simp add: scoreSignals_def add_signal_def get_member_def set_member_def nullish_or_def
      CONFIDENCE_WEIGHTS_def OBJECT_PROTOTYPE_NAMES_def CATEGORY_CAP_def)

lemma ex_ai_score:
  "scoreSignals (shadcnSignals (Suc 0) @ lucideSignals True
      @ prototypeHostingSignals True ''my-site.vercel.app'') = Num 15"
  by (simp add: shadcnSignals_def lucideSignals_def prototypeHostingSignals_def scoreSignals_def
      add_signal_def get_member_def set_member_def nullish_or_def
      CONFIDENCE_WEIGHTS_def OBJECT_PROTOTYPE_NAMES_def CATEGORY_CAP_def)

lemma ex_best_wix:
  "bestEntry [(''Framer'', Num 0), (''Webflow'', Num 0), (''Bolt'', Num 0), (''v0 (Vercel)'', Num 0),
        (''Wix'', Num 10), (''Lovable'', Num 0), (''Squarespace'', Num 0), (''GitHub Pages'', Num 0),
        (''Cursor AI'', Num 0)] = (''Wix'', Num 10)"
  by (simp add: bestEntry_def Array_sort_def)

lemma ex_best_none:
  "bestEntry [(''Framer'', Num 0), (''Webflow'', Num 0), (''Bolt'', Num 0), (''v0 (Vercel)'', Num 0),
        (''Wix'', Num 0), (''Lovable'', Num 0), (''Squarespace'', Num 0), (''GitHub Pages'', Num 0),
        (''Cursor AI'', Num 0)] = (''Framer'', Num 0)"
  by (simp add: bestEntry_def Array_sort_def)

lemma ex_run_wix:
  "detectUrl (example_runtime wix_headers script) ''my-site.vercel.app'' 15000
     = \<lparr>url = ''my-site.vercel.app'', finalUrl = example_url,
        bucket = PlatformAssisted, bucketConfidence = ConfMedium,
        platform = Some ''Wix'', platformScore = Num 10,
        platformSignals =
          [\<lparr>category = ''http_header'', description = ''Wix site confirmation header'',
             confidence = ''high'', matchedValue = ''1''\<rparr>],
        allPlatformScores =
          [(''Framer'', Num 0), (''Webflow'', Num 0), (''Bolt'', Num 0), (''v0 (Vercel)'', Num 0),
           (''Wix'', Num 10), (''Lovable'', Num 0), (''Squarespace'', Num 0),
           (''GitHub Pages'', Num 0), (''Cursor AI'', Num 0)],
        aiScore = Num 15,
        aiSignals = shadcnSignals 1 @ lucideSignals True
          @ prototypeHostingSignals True ''my-site.vercel.app'',
        error = None\<rparr>"
proof -
  let ?hs = "[(''x-meta-site-is-wix-site'', ''1''), (''x-vercel-id'', ''fra1::abc'')]"
  have s: "map_of ?hs ''server'' = None" "map_of ?hs ''server-version'' = None" by simp_all
  have sigmap: "map_of (map (\<lambda>(name, fp). (name,
            detectPlatform (sample_runtime (Returned (example_page wix_headers)) script) name fp example_html ?hs example_url))
          FINGERPRINTS) ''Wix''
      = Some [\<lparr>category = ''http_header'', description = ''Wix site confirmation header'',
             confidence = ''high'', matchedValue = ''1''\<rparr>]"
    by (simp add: FINGERPRINTS_def ex_detect_Wix[OF s(1)] ex_wix_signals)
  show ?thesis
    unfolding detectUrl_def ex_fetch_wix
    by (simp add: Let_def truthy_def allScores_eq example_runtime_def ex_scores[OF s]
        ex_wix_signals ex_wix_score ex_best_wix ex_ai_wix ex_ai_score sigmap nullish_or_def
        MIN_PLATFORM_SCORE_def MIN_AI_SCORE_def confidenceLabel_def)
qed

lemma ex_run_vercel:
  "detectUrl (example_runtime vercel_headers script) ''my-site.vercel.app'' 15000
     = \<lparr>url = ''my-site.vercel.app'', finalUrl = example_url,
        bucket = AiAssisted, bucketConfidence = ConfMedium,
        platform = None, platformScore = Num 0, platformSignals = [],
        allPlatformScores =
          [(''Framer'', Num 0), (''Webflow'', Num 0), (''Bolt'', Num 0), (''v0 (Vercel)'', Num 0),
           (''Wix'', Num 0), (''Lovable'', Num 0), (''Squarespace'', Num 0),
           (''GitHub Pages'', Num 0), (''Cursor AI'', Num 0)],
        aiScore = Num 15,
        aiSignals = shadcnSignals 1 @ lucideSignals True
          @ prototypeHostingSignals True ''my-site.vercel.app'',
        error = None\<rparr>"
proof -
  let ?hs = "[(''x-vercel-id'', ''fra1::abc'')]"
  have s: "map_of ?hs ''server'' = None" "map_of ?hs ''server-version'' = None" by simp_all
  have e: "scoreSignals [] = Num 0" by (simp add: scoreSignals_def)
  show ?thesis
    unfolding detectUrl_def ex_fetch_vercel
    by (simp add: Let_def truthy_def allScores_eq example_runtime_def ex_scores[OF s]
        ex_no_wix_signals e ex_best_none ex_ai_vercel ex_ai_score
        MIN_PLATFORM_SCORE_def MIN_AI_SCORE_def confidenceLabel_def)
qed






lemma pepyaka:
  "wixHeaderSignals (sample_runtime (Threw ''unused'') (Threw ''unused''))
      [(''server'', ''Pepyaka/'' @ replicate 130 (CHR ''x''))]
   = [\<lparr>category = ''http_header'',
        description = ''Wix Pepyaka server [server: '' @ ''Pepyaka/'' @ replicate 130 (CHR ''x'') @ '']'',
        confidence = ''high'', matchedValue = ''Pepyaka/'' @ replicate 130 (CHR ''x'')\<rparr>]"
  by code_simp

lemma custom_domain:
  "\<not> isPrototypeHost (sample_runtime page script) (extractHostname (sample_runtime page script) ''https://example.com/'')"
  by code_simp

lemma prototype_domain:
  "isPrototypeHost (sample_runtime page script)
     (extractHostname (sample_runtime page script) example_url)"
  by code_simp





section \<open>The bucket decision\<close>

text \<open>
  C1. When the page was fetched, the best platform score is at least the platform
  threshold 5 and the AI score is at least the AI threshold 10, the bucket of the result
  is platform-assisted and not ai-assisted.
\<close>

theorem detectUrl_platform_precedence:
  assumes "error (detectUrl E rawUrl t) = None"
    and "num_ge (snd (bestEntry (allPlatformScores (detectUrl E rawUrl t))))
           (Num MIN_PLATFORM_SCORE)"
    and "num_ge (aiScore (detectUrl E rawUrl t)) (Num MIN_AI_SCORE)"
  shows "bucket (detectUrl E rawUrl t) = PlatformAssisted
    \<and> bucket (detectUrl E rawUrl t) \<noteq> AiAssisted"
  using assms
  by (auto simp: detectUrl_def Let_def truthy_def split: prod.splits if_splits option.splits)

theorem detectUrl_platform_precedence_witness:
  "error (detectUrl (example_runtime wix_headers (Threw ''offline'')) ''my-site.vercel.app'' 15000)
     = None
   \<and> num_ge (snd (bestEntry (allPlatformScores
         (detectUrl (example_runtime wix_headers (Threw ''offline'')) ''my-site.vercel.app'' 15000))))
       (Num 5)
   \<and> num_ge (aiScore
         (detectUrl (example_runtime wix_headers (Threw ''offline'')) ''my-site.vercel.app'' 15000))
       (Num 10)
   \<and> bucket (detectUrl (example_runtime wix_headers (Threw ''offline'')) ''my-site.vercel.app'' 15000)
     = PlatformAssisted"
proof -
  let ?r = "detectUrl (example_runtime wix_headers (Threw ''offline'')) ''my-site.vercel.app'' 15000"
  have e: "error ?r = None" by (simp add: ex_run_wix)
  have p: "num_ge (snd (bestEntry (allPlatformScores ?r))) (Num MIN_PLATFORM_SCORE)"
    by (simp add: ex_run_wix ex_best_wix MIN_PLATFORM_SCORE_def)
  have a: "num_ge (aiScore ?r) (Num MIN_AI_SCORE)"
    by (simp add: ex_run_wix MIN_AI_SCORE_def)
  from detectUrl_platform_precedence[OF e p a] have "bucket ?r = PlatformAssisted" by blast
  with e p a show ?thesis by (simp add: MIN_PLATFORM_SCORE_def MIN_AI_SCORE_def)
qed

text \<open>
  C2. When the error field of the result is not null, the bucket is unknown, the
  confidence is none, the platform is null, both scores are 0 and the signal lists and
  the score table are empty. The error field is not null whenever the primary fetch
  throws with a message that is not the empty text (an empty message is falsy in
  \<open>if (fetchError)\<close>, and the page is then analysed as an empty page).
\<close>

theorem detectUrl_fetch_failure_defaults:
  "(error (detectUrl E rawUrl t) \<noteq> None \<longrightarrow>
      bucket (detectUrl E rawUrl t) = Unknown
      \<and> bucketConfidence (detectUrl E rawUrl t) = ConfNone
      \<and> platform (detectUrl E rawUrl t) = None
      \<and> platformScore (detectUrl E rawUrl t) = Num 0
      \<and> platformSignals (detectUrl E rawUrl t) = []
      \<and> allPlatformScores (detectUrl E rawUrl t) = []
      \<and> aiScore (detectUrl E rawUrl t) = Num 0
      \<and> aiSignals (detectUrl E rawUrl t) = [])
   \<and> (fetch_page E (normalizeUrl rawUrl) t = Threw msg \<and> msg \<noteq> '''' \<longrightarrow>
        error (detectUrl E rawUrl t) = Some msg)"
  by (auto simp: detectUrl_def Let_def truthy_def primaryFetch_def
      split: prod.splits if_splits option.splits attempt.splits)

theorem detectUrl_fetch_failure_defaults_witness:
  "error (detectUrl (sample_runtime (Threw ''timeout'') (Threw ''offline'')) ''example.com'' 15000)
     = Some ''timeout''
   \<and> bucket (detectUrl (sample_runtime (Threw ''timeout'') (Threw ''offline'')) ''example.com'' 15000)
     = Unknown
   \<and> bucketConfidence
       (detectUrl (sample_runtime (Threw ''timeout'') (Threw ''offline'')) ''example.com'' 15000)
     = ConfNone
   \<and> aiSignals (detectUrl (sample_runtime (Threw ''timeout'') (Threw ''offline'')) ''example.com'' 15000)
     = []"
proof -
  let ?E = "sample_runtime (Threw ''timeout'') (Threw ''offline'')"
  let ?r = "detectUrl ?E ''example.com'' 15000"
  have f: "fetch_page ?E (normalizeUrl ''example.com'') 15000 = Threw ''timeout'' \<and> ''timeout'' \<noteq> ''''"
    by (simp add: sample_runtime_def)
  from detectUrl_fetch_failure_defaults[of ?E "''example.com''" 15000 "''timeout''"] f
  have e: "error ?r = Some ''timeout''" by blast
  then have "error ?r \<noteq> None" by simp
  with detectUrl_fetch_failure_defaults[of ?E "''example.com''" 15000 "''timeout''"] e
  show ?thesis by blast
qed

text \<open>
  C8. When the page was fetched, the platform, the platform score and the platform
  signals of the result are null, 0 and empty unless the bucket is platform-assisted,
  and the AI signals and the AI score are what the AI heuristic extractor returns for
  the fetched page and the score of that, whatever the bucket.
\<close>

theorem detectUrl_platform_fields_and_ai_fields:
  assumes "error (detectUrl E rawUrl t) = None"
    and "primaryFetch E (normalizeUrl rawUrl) t = (html, headers, fu, err)"
  shows "(bucket (detectUrl E rawUrl t) \<noteq> PlatformAssisted \<longrightarrow>
           platform (detectUrl E rawUrl t) = None
           \<and> platformScore (detectUrl E rawUrl t) = Num 0
           \<and> platformSignals (detectUrl E rawUrl t) = [])
    \<and> aiSignals (detectUrl E rawUrl t) = detectAiHeuristics E html headers fu
    \<and> aiScore (detectUrl E rawUrl t) = scoreSignals (detectAiHeuristics E html headers fu)"
  using assms
  by (auto simp: detectUrl_def Let_def truthy_def split: prod.splits if_splits option.splits)

theorem detectUrl_platform_fields_and_ai_fields_witness:
  "bucket (detectUrl (example_runtime wix_headers (Threw ''offline'')) ''my-site.vercel.app'' 15000)
     = PlatformAssisted
   \<and> aiSignals (detectUrl (example_runtime wix_headers (Threw ''offline'')) ''my-site.vercel.app'' 15000)
     = detectAiHeuristics (example_runtime wix_headers (Threw ''offline'')) example_html
         [(''x-meta-site-is-wix-site'', ''1''), (''x-vercel-id'', ''fra1::abc'')] example_url
   \<and> aiScore (detectUrl (example_runtime wix_headers (Threw ''offline'')) ''my-site.vercel.app'' 15000)
     = Num 15
   \<and> bucket (detectUrl (example_runtime vercel_headers (Threw ''offline'')) ''my-site.vercel.app'' 15000)
     = AiAssisted
   \<and> platform (detectUrl (example_runtime vercel_headers (Threw ''offline'')) ''my-site.vercel.app'' 15000)
     = None
   \<and> platformScore
       (detectUrl (example_runtime vercel_headers (Threw ''offline'')) ''my-site.vercel.app'' 15000)
     = Num 0
   \<and> platformSignals
       (detectUrl (example_runtime vercel_headers (Threw ''offline'')) ''my-site.vercel.app'' 15000)
     = []"
proof -
  let ?w = "detectUrl (example_runtime wix_headers (Threw ''offline'')) ''my-site.vercel.app'' 15000"
  let ?v = "detectUrl (example_runtime vercel_headers (Threw ''offline'')) ''my-site.vercel.app'' 15000"
  have ew: "error ?w = None" and bw: "bucket ?w = PlatformAssisted" and sw: "aiScore ?w = Num 15"
    by (simp_all add: ex_run_wix)
  have ev: "error ?v = None" and bv: "bucket ?v = AiAssisted"
    by (simp_all add: ex_run_vercel)
  from bv have nv: "bucket ?v \<noteq> PlatformAssisted" by simp
  from detectUrl_platform_fields_and_ai_fields[OF ew ex_fetch_wix]
  have aw: "aiSignals ?w = detectAiHeuristics (example_runtime wix_headers (Threw ''offline''))
      example_html [(''x-meta-site-is-wix-site'', ''1''), (''x-vercel-id'', ''fra1::abc'')] example_url"
    by blast
  from detectUrl_platform_fields_and_ai_fields[OF ev ex_fetch_vercel] nv
  have "platform ?v = None \<and> platformScore ?v = Num 0 \<and> platformSignals ?v = []"
    by blast
  with bw aw sw bv show ?thesis by blast
qed


section \<open>The best platform\<close>

text \<open>
  C6. For every table of finite platform scores that is not empty, the entry chosen by
  lines 869 and 870 carries the largest score of the table, and every entry before it
  carries a strictly smaller score: among equal largest scores the first in the
  table's order wins. When the page was fetched, the score table of the result lists
  the platforms in the order in which the fingerprint table declares them, all its scores
  are finite, and in the platform-assisted bucket the platform and the platform score of
  the result are that chosen entry.
\<close>

theorem bestEntry_first_maximum:
  "(tbl \<noteq> [] \<longrightarrow>
      (\<exists>pre p m post. tbl = pre @ (p, m) # post
         \<and> (\<forall>e\<in>set pre. snd e < m) \<and> (\<forall>e\<in>set post. snd e \<le> m)
         \<and> bestEntry (numeric tbl) = (p, Num m)))
   \<and> (error (detectUrl E rawUrl t) = None \<longrightarrow>
        (\<exists>scores. allPlatformScores (detectUrl E rawUrl t) = numeric scores
           \<and> map fst scores = map fst FINGERPRINTS
           \<and> (bucket (detectUrl E rawUrl t) = PlatformAssisted \<longrightarrow>
                platform (detectUrl E rawUrl t) = Some (fst (bestEntry (numeric scores)))
                \<and> platformScore (detectUrl E rawUrl t) = snd (bestEntry (numeric scores)))))"
proof (intro conjI impI)
  assume ne: "tbl \<noteq> []"
  from first_max_decomp[OF ne] obtain pre post where
    d: "tbl = pre @ first_max tbl # post" "\<forall>e\<in>set pre. snd e < snd (first_max tbl)"
       "\<forall>e\<in>set post. snd e \<le> snd (first_max tbl)" by blast
  have "tbl = pre @ (fst (first_max tbl), snd (first_max tbl)) # post" using d(1) by simp
  with d(2,3) bestEntry_numeric[of tbl]
  show "\<exists>pre p m post. tbl = pre @ (p, m) # post
         \<and> (\<forall>e\<in>set pre. snd e < m) \<and> (\<forall>e\<in>set post. snd e \<le> m)
         \<and> bestEntry (numeric tbl) = (p, Num m)" by blast
next
  assume ok: "error (detectUrl E rawUrl t) = None"
  obtain html headers fu err where
    pf: "primaryFetch E (normalizeUrl rawUrl) t = (html, headers, fu, err)"
    by (cases "primaryFetch E (normalizeUrl rawUrl) t") auto
  let ?scores = "map (\<lambda>(name, fp).
      (name, score_of (scoreSignals (detectPlatform E name fp html headers fu)))) FINGERPRINTS"
  have nt: "\<not> truthy err" using ok detectUrl_error_iff[OF pf] by simp
  have all: "allPlatformScores (detectUrl E rawUrl t) = numeric ?scores"
    using nt pf by (simp add: detectUrl_def Let_def allScores_eq platform_scores_numeric)
  have names: "map fst ?scores = map fst FINGERPRINTS" by (simp add: comp_def case_prod_beta)
  have best: "bucket (detectUrl E rawUrl t) = PlatformAssisted \<longrightarrow>
                platform (detectUrl E rawUrl t) = Some (fst (bestEntry (numeric ?scores)))
                \<and> platformScore (detectUrl E rawUrl t) = snd (bestEntry (numeric ?scores))"
    using nt pf by (simp add: detectUrl_def Let_def allScores_eq platform_scores_numeric)
  from all names best
  show "\<exists>scores. allPlatformScores (detectUrl E rawUrl t) = numeric scores
           \<and> map fst scores = map fst FINGERPRINTS
           \<and> (bucket (detectUrl E rawUrl t) = PlatformAssisted \<longrightarrow>
                platform (detectUrl E rawUrl t) = Some (fst (bestEntry (numeric scores)))
                \<and> platformScore (detectUrl E rawUrl t) = snd (bestEntry (numeric scores)))"
    by blast
qed

theorem bestEntry_first_maximum_witness:
  "bestEntry (numeric [(''Framer'', 10), (''Webflow'', 20), (''Wix'', 20)]) = (''Webflow'', Num 20)
   \<and> (\<exists>pre post. [(''Framer'', 10), (''Webflow'', 20), (''Wix'', 20 :: real)]
          = pre @ (''Webflow'', 20) # post
        \<and> (\<forall>e\<in>set pre. snd e < 20) \<and> (\<forall>e\<in>set post. snd e \<le> 20))
   \<and> error (detectUrl (example_runtime wix_headers (Threw ''offline'')) ''my-site.vercel.app'' 15000)
     = None
   \<and> platform (detectUrl (example_runtime wix_headers (Threw ''offline'')) ''my-site.vercel.app'' 15000)
     = Some ''Wix''"
proof -
  let ?tbl = "[(''Framer'', 10), (''Webflow'', 20), (''Wix'', 20 :: real)]"
  let ?r = "detectUrl (example_runtime wix_headers (Threw ''offline'')) ''my-site.vercel.app'' 15000"
  have ne: "?tbl \<noteq> []" by simp
  have ev: "bestEntry (numeric ?tbl) = (''Webflow'', Num 20)"
    by (simp add: numeric_def bestEntry_def Array_sort_def)
  have "?tbl \<noteq> [] \<longrightarrow>
      (\<exists>pre p m post. ?tbl = pre @ (p, m) # post
         \<and> (\<forall>e\<in>set pre. snd e < m) \<and> (\<forall>e\<in>set post. snd e \<le> m)
         \<and> bestEntry (numeric ?tbl) = (p, Num m))"
    by (rule bestEntry_first_maximum[of ?tbl "example_runtime wix_headers (Threw ''offline'')"
          "''my-site.vercel.app''" 15000, THEN conjunct1])
  with ne obtain pre p m post where
    d: "?tbl = pre @ (p, m) # post" "\<forall>e\<in>set pre. snd e < m" "\<forall>e\<in>set post. snd e \<le> m"
       "bestEntry (numeric ?tbl) = (p, Num m)" by blast
  from d(4) have "(p, Num m) = (''Webflow'', Num 20)" by (simp only: ev)
  then have pm: "p = ''Webflow''" "m = 20" by simp_all
  have ex: "\<exists>pre post. ?tbl = pre @ (''Webflow'', 20) # post
      \<and> (\<forall>e\<in>set pre. snd e < 20) \<and> (\<forall>e\<in>set post. snd e \<le> 20)"
    using d(1,2,3) unfolding pm by (intro exI[of _ pre] exI[of _ post] conjI)
  have e: "error ?r = None" and b: "bucket ?r = PlatformAssisted" and pl: "platform ?r = Some ''Wix''"
    by (simp_all add: ex_run_wix)
  from ev ex e pl show ?thesis by blast
qed


section \<open>The length of matched values\<close>




text \<open>The Wix Pepyaka check stores the \<open>server\<close> header whole, where the block before it
  stores at most 60 characters of the same header: a header of 138 characters is the
  matched value.\<close>

lemma wix_pepyaka_value_not_cut:
  "length (matchedValue (hd (wixHeaderSignals (sample_runtime (Threw ''unused'') (Threw ''unused''))
      [(''server'', ''Pepyaka/'' @ replicate 130 (CHR ''x''))]))) = 138"
  unfolding pepyaka by simp


section \<open>Hosting headers and prototype hosting\<close>

text \<open>
  C9. When the prototype-hosting check fires on the host name, the extractor emits the
  medium-confidence \<open>prototype_hosting\<close> signal and no \<open>hosting_platform\<close> signal. When
  it does not fire, a Vercel signal is emitted exactly when the Vercel header read
  (\<open>x-vercel-id\<close>, or \<open>x-vercel-cache\<close> when that one is absent) is not empty, and a
  Netlify signal exactly when the Netlify header read (\<open>x-nf-request-id\<close>, or
  \<open>x-netlify\<close>) is not empty. Every \<open>hosting_platform\<close> signal has low confidence.
\<close>

theorem hosting_header_suppressed_on_prototype_host:
  "(isPrototypeHost E (extractHostname E u) \<longrightarrow>
      (\<forall>s\<in>set (detectAiHeuristics E html headers u). category s \<noteq> ''hosting_platform'')
      \<and> (\<exists>s\<in>set (detectAiHeuristics E html headers u).
            category s = ''prototype_hosting'' \<and> confidence s = ''medium''))
   \<and> (\<not> isPrototypeHost E (extractHostname E u) \<longrightarrow>
        (vercelId headers \<noteq> '''' \<longleftrightarrow>
           (\<exists>s\<in>set (detectAiHeuristics E html headers u).
              category s = ''hosting_platform'' \<and> confidence s = ''low''
              \<and> matchedValue s = ''vercel''))
      \<and> (netlifyHdr headers \<noteq> '''' \<longleftrightarrow>
           (\<exists>s\<in>set (detectAiHeuristics E html headers u).
              category s = ''hosting_platform'' \<and> confidence s = ''low''
              \<and> matchedValue s = ''netlify'')))
   \<and> (\<forall>s\<in>set (detectAiHeuristics E html headers u).
         category s = ''hosting_platform'' \<longrightarrow> confidence s = ''low'')"
proof -
  let ?ph = "isPrototypeHost E (extractHostname E u)"
  let ?out = "detectAiHeuristics E html headers u"
  let ?H = "hostingHeaderSignals headers ?ph"
  have bk: "\<And>s. s \<in> set ?out \<Longrightarrow> category s = ''hosting_platform'' \<Longrightarrow> s \<in> set ?H"
    by (rule hosting_category_iff)
  have fwd: "\<And>s. s \<in> set ?H \<Longrightarrow> s \<in> set ?out"
    using hosting_subset by blast
  have p1: "?ph \<Longrightarrow> \<forall>s\<in>set ?out. category s \<noteq> ''hosting_platform''"
  proof
    fix s assume ph: ?ph and s: "s \<in> set ?out"
    show "category s \<noteq> ''hosting_platform''"
    proof
      assume "category s = ''hosting_platform''"
      from bk[OF s this] ph show False by (simp add: hostingHeaderSignals_def)
    qed
  qed
  have p2: "?ph \<Longrightarrow> \<exists>s\<in>set ?out. category s = ''prototype_hosting'' \<and> confidence s = ''medium''"
  proof -
    assume ph: ?ph
    let ?sig = "\<lparr>category = ''prototype_hosting'',
             description = ''Hosted on a prototype/AI-default platform subdomain (''
               @ extractHostname E u @ '')'',
             confidence = ''medium'', matchedValue = extractHostname E u\<rparr>"
    from ph have "?sig \<in> set (prototypeHostingSignals ?ph (extractHostname E u))"
      by (simp add: prototypeHostingSignals_def)
    with prototype_subset[of E u html headers] have "?sig \<in> set ?out" by blast
    then show ?thesis by force
  qed
  have p3: "\<not> ?ph \<Longrightarrow> (vercelId headers \<noteq> '''') =
      (\<exists>s\<in>set ?out. category s = ''hosting_platform'' \<and> confidence s = ''low'' \<and> matchedValue s = ''vercel'')"
  proof
    assume "\<not> ?ph" "vercelId headers \<noteq> ''''"
    then have "\<lparr>category = ''hosting_platform'',
             description = ''Hosted on Vercel (common AI-assisted site host)'',
             confidence = ''low'', matchedValue = ''vercel''\<rparr> \<in> set ?H"
      by (simp add: hostingHeaderSignals_def)
    from fwd[OF this] show "\<exists>s\<in>set ?out. category s = ''hosting_platform'' \<and> confidence s = ''low'' \<and> matchedValue s = ''vercel''"
      by force
  next
    assume "\<not> ?ph" "\<exists>s\<in>set ?out. category s = ''hosting_platform'' \<and> confidence s = ''low'' \<and> matchedValue s = ''vercel''"
    then obtain s where s: "s \<in> set ?out" "category s = ''hosting_platform''" "matchedValue s = ''vercel''" by blast
    from bk[OF s(1,2)] s(3) show "vercelId headers \<noteq> ''''"
      by (auto simp: hostingHeaderSignals_def split: if_splits)
  qed
  have p4: "\<not> ?ph \<Longrightarrow> (netlifyHdr headers \<noteq> '''') =
      (\<exists>s\<in>set ?out. category s = ''hosting_platform'' \<and> confidence s = ''low'' \<and> matchedValue s = ''netlify'')"
  proof
    assume "\<not> ?ph" "netlifyHdr headers \<noteq> ''''"
    then have "\<lparr>category = ''hosting_platform'',
               description = ''Hosted on Netlify (common AI-assisted site host)'',
               confidence = ''low'', matchedValue = ''netlify''\<rparr> \<in> set ?H"
      by (simp add: hostingHeaderSignals_def)
    from fwd[OF this] show "\<exists>s\<in>set ?out. category s = ''hosting_platform'' \<and> confidence s = ''low'' \<and> matchedValue s = ''netlify''"
      by force
  next
    assume "\<not> ?ph" "\<exists>s\<in>set ?out. category s = ''hosting_platform'' \<and> confidence s = ''low'' \<and> matchedValue s = ''netlify''"
    then obtain s where s: "s \<in> set ?out" "category s = ''hosting_platform''" "matchedValue s = ''netlify''" by blast
    from bk[OF s(1,2)] s(3) show "netlifyHdr headers \<noteq> ''''"
      by (auto simp: hostingHeaderSignals_def split: if_splits)
  qed
  have p5: "\<forall>s\<in>set ?out. category s = ''hosting_platform'' \<longrightarrow> confidence s = ''low''"
  proof (intro ballI impI)
    fix s assume "s \<in> set ?out" "category s = ''hosting_platform''"
    from bk[OF this] show "confidence s = ''low''"
      by (auto simp: hostingHeaderSignals_def split: if_splits)
  qed
  from p1 p2 p3 p4 p5 show ?thesis by blast
qed

theorem hosting_header_suppressed_on_prototype_host_witness:
  "isPrototypeHost (example_runtime wix_headers (Threw ''offline''))
     (extractHostname (example_runtime wix_headers (Threw ''offline'')) example_url)
   \<and> vercelId [(''x-meta-site-is-wix-site'', ''1''), (''x-vercel-id'', ''fra1::abc'')] \<noteq> ''''
   \<and> ''hosting_platform'' \<notin> category ` set
       (detectAiHeuristics (example_runtime wix_headers (Threw ''offline'')) example_html
          [(''x-meta-site-is-wix-site'', ''1''), (''x-vercel-id'', ''fra1::abc'')] example_url)
   \<and> \<not> isPrototypeHost (example_runtime wix_headers (Threw ''offline''))
       (extractHostname (example_runtime wix_headers (Threw ''offline'')) ''https://example.com/'')
   \<and> (\<exists>s\<in>set (detectAiHeuristics (example_runtime wix_headers (Threw ''offline'')) ''''
          [(''x-vercel-id'', ''fra1::abc'')] ''https://example.com/'').
        category s = ''hosting_platform'' \<and> confidence s = ''low'' \<and> matchedValue s = ''vercel'')"
proof -
  let ?E = "example_runtime wix_headers (Threw ''offline'')"
  let ?hs = "[(''x-meta-site-is-wix-site'', ''1''), (''x-vercel-id'', ''fra1::abc'')]"
  have ph: "isPrototypeHost ?E (extractHostname ?E example_url)"
    unfolding example_runtime_def by (rule prototype_domain)
  have v1: "vercelId ?hs \<noteq> ''''" by (simp add: vercelId_def nullish_or_def)
  have v2: "vercelId [(''x-vercel-id'', ''fra1::abc'')] \<noteq> ''''"
    by (simp add: vercelId_def nullish_or_def)
  have np: "\<not> isPrototypeHost ?E (extractHostname ?E ''https://example.com/'')"
    unfolding example_runtime_def by (rule custom_domain)
  have "isPrototypeHost ?E (extractHostname ?E example_url) \<longrightarrow>
      (\<forall>s\<in>set (detectAiHeuristics ?E example_html ?hs example_url).
          category s \<noteq> ''hosting_platform'')
      \<and> (\<exists>s\<in>set (detectAiHeuristics ?E example_html ?hs example_url).
            category s = ''prototype_hosting'' \<and> confidence s = ''medium'')"
    by (rule hosting_header_suppressed_on_prototype_host[of ?E example_url example_html ?hs,
          THEN conjunct1])
  with ph have "\<forall>s\<in>set (detectAiHeuristics ?E example_html ?hs example_url).
      category s \<noteq> ''hosting_platform''"
    by (elim impE conjE)
  then have a: "''hosting_platform'' \<notin> category ` set
      (detectAiHeuristics ?E example_html ?hs example_url)"
    by auto
  have "\<not> isPrototypeHost ?E (extractHostname ?E ''https://example.com/'') \<longrightarrow>
        (vercelId [(''x-vercel-id'', ''fra1::abc'')] \<noteq> '''' \<longleftrightarrow>
           (\<exists>s\<in>set (detectAiHeuristics ?E '''' [(''x-vercel-id'', ''fra1::abc'')]
                ''https://example.com/'').
              category s = ''hosting_platform'' \<and> confidence s = ''low''
              \<and> matchedValue s = ''vercel''))
      \<and> (netlifyHdr [(''x-vercel-id'', ''fra1::abc'')] \<noteq> '''' \<longleftrightarrow>
           (\<exists>s\<in>set (detectAiHeuristics ?E '''' [(''x-vercel-id'', ''fra1::abc'')]
                ''https://example.com/'').
              category s = ''hosting_platform'' \<and> confidence s = ''low''
              \<and> matchedValue s = ''netlify''))"
    by (rule hosting_header_suppressed_on_prototype_host[of ?E "''https://example.com/''" "''''"
          "[(''x-vercel-id'', ''fra1::abc'')]", THEN conjunct2, THEN conjunct1])
  with np have "vercelId [(''x-vercel-id'', ''fra1::abc'')] \<noteq> '''' \<longleftrightarrow>
           (\<exists>s\<in>set (detectAiHeuristics ?E '''' [(''x-vercel-id'', ''fra1::abc'')]
                ''https://example.com/'').
              category s = ''hosting_platform'' \<and> confidence s = ''low''
              \<and> matchedValue s = ''vercel'')"
    by (elim impE conjE)
  with v2
  have b: "\<exists>s\<in>set (detectAiHeuristics ?E '''' [(''x-vercel-id'', ''fra1::abc'')]
                ''https://example.com/'').
        category s = ''hosting_platform'' \<and> confidence s = ''low'' \<and> matchedValue s = ''vercel''"
    by (rule iffD1[rotated])
  show ?thesis
    using ph v1 a np b by (intro conjI)
qed

text \<open>An \<open>x-vercel-id\<close> header with an empty value hides the \<open>x-vercel-cache\<close> header from
  the read (\<open>??\<close> passes over \<open>null\<close> and \<open>undefined\<close> only), and the empty text is
  falsy: on a custom domain with both headers no signal is emitted.\<close>

theorem hosting_header_suppressed_on_prototype_host_counterexample:
  "map_of [(''x-vercel-id'', ''''), (''x-vercel-cache'', ''HIT'')] ''x-vercel-cache'' = Some ''HIT''
   \<and> \<not> isPrototypeHost (sample_runtime (Threw ''unused'') (Threw ''unused''))
       (extractHostname (sample_runtime (Threw ''unused'') (Threw ''unused'')) ''https://example.com/'')
   \<and> detectAiHeuristics (sample_runtime (Threw ''unused'') (Threw ''unused'')) ''''
       [(''x-vercel-id'', ''''), (''x-vercel-cache'', ''HIT'')] ''https://example.com/'' = []"
  by code_simp


section \<open>The adjunct script bundle\<close>



end
